theory Spec2Isabelle
  imports Main "HOL-Library.Word"
begin

section \<open>Go values\<close>

text \<open>
  The repository is written in Go. Its \<^verbatim>\<open>int\<close> is taken at 64 bits (the width on the
  amd64 and arm64 targets the services are built for), with two's complement
  wrap-around on \<open>+\<close> and \<open>*\<close>; \<open>sint\<close> reads the signed value and \<open><s\<close> is Go's
  \<^verbatim>\<open><\<close> on it. \<^verbatim>\<open>time.Duration\<close> is an \<^verbatim>\<open>int64\<close> count of nanoseconds. A
  \<^verbatim>\<open>time.Time\<close> is an integer count of nanoseconds, a \<^verbatim>\<open>uuid.UUID\<close> a natural number
  whose zero is \<^verbatim>\<open>uuid.Nil\<close>, and a \<^verbatim>\<open>[]byte\<close> a string.
\<close>

type_synonym goint = "64 word"
type_synonym int64 = "64 word"
type_synonym Duration = "64 word"
type_synonym Time = int
type_synonym UUID = nat
type_synonym bytes = string

definition uuid_Nil :: UUID where
  "uuid_Nil = 0"

definition Millisecond :: Duration where
  "Millisecond = 1000000"

text \<open>
  Values of Go's \<^verbatim>\<open>any\<close> that \<^verbatim>\<open>encoding/json\<close> produces when it decodes a document.
  Numbers are carried as integers: no operation of the model computes with them.
\<close>

datatype jvalue =
    JNull
  | JBool bool
  | JNumber int
  | JString string
  | JArray "jvalue list"
  | JObject "(string \<times> jvalue) list"

text \<open>
  Go's \<^verbatim>\<open>error\<close> values. The first eight are the sentinel errors of the domain packages
  \<^verbatim>\<open>queue\<close> and \<^verbatim>\<open>insights\<close>; \<open>ErrNoRows\<close> is what the database driver returns when a
  single-row query finds nothing; \<open>External\<close> is any other error that a driver, the
  broker, the analyzer, the executor or \<^verbatim>\<open>encoding/json\<close> returns. A result
  \<open>RuntimePanic\<close> is not a returned error: it says that the call panicked.
\<close>

datatype error =
    ErrInvalidQueue
  | ErrInvalidType
  | ErrMaxAttemptsReached
  | ErrJobNotFound
  | ErrInvalidJobID
  | ErrAnalysisFailed
  | ErrInsightNotFound
  | ErrInvalidAnalysisData
  | ErrNoRows
  | External string
  | RuntimePanic string

text \<open>The method \<^verbatim>\<open>Error()\<close> of an error value.\<close>

fun ErrorString :: "error \<Rightarrow> string" where
  "ErrorString ErrInvalidQueue = ''queue name is required''"
| "ErrorString ErrInvalidType = ''job type is required''"
| "ErrorString ErrMaxAttemptsReached = ''maximum retry attempts reached''"
| "ErrorString ErrJobNotFound = ''job not found''"
| "ErrorString ErrInvalidJobID = ''invalid job ID''"
| "ErrorString ErrAnalysisFailed = ''AI analysis failed''"
| "ErrorString ErrInsightNotFound = ''insight not found''"
| "ErrorString ErrInvalidAnalysisData = ''invalid analysis data''"
| "ErrorString ErrNoRows = ''no rows in result set''"
| "ErrorString (External msg) = msg"
| "ErrorString (RuntimePanic msg) = msg"

definition nil_dereference :: error where
  "nil_dereference = RuntimePanic ''invalid memory address or nil pointer dereference''"

definition nil_map_write :: error where
  "nil_map_write = RuntimePanic ''assignment to entry in nil map''"

definition is_panic :: "error \<Rightarrow> bool" where
  "is_panic e = (case e of RuntimePanic _ \<Rightarrow> True | _ \<Rightarrow> False)"

section \<open>Data of the domain packages\<close>

text \<open>
  Several structs share field names (\<open>ID\<close>, \<open>Error\<close>, \<open>Payload\<close>, ...). The record declared
  last owns the plain name; the others are written with their record's name, as in
  \<open>Insight.ID\<close>.
\<close>

subsection \<open>Package insights\<close>

record SuggestedFix =
  TimeoutSeconds :: goint
  MaxRetries :: goint
  PayloadPatch :: "string \<rightharpoonup> jvalue"

text \<open>
  \<^verbatim>\<open>AnalysisRequest.JobID\<close> is the canonical text of the job's id
  (\<^verbatim>\<open>job.ID.String()\<close>), which determines the id: the model carries the id.
\<close>

record AnalysisRequest =
  JobID :: UUID
  Error :: string
  Payload :: string

record AnalysisResponse =
  Diagnosis :: string
  Recommendation :: string
  SuggestedFix :: SuggestedFix

record Insight =
  ID :: UUID
  JobID :: UUID
  Diagnosis :: string
  Recommendation :: string
  SuggestedFix :: SuggestedFix
  CreatedAt :: Time

subsection \<open>Package worker\<close>

record WorkerConfig =
  QueueName :: string
  MaxAttempts :: goint
  BaseBackoffMs :: goint
  PollInterval :: Duration

subsection \<open>Package queue\<close>

text \<open>\<^verbatim>\<open>type Status string\<close> with its five constants.\<close>

type_synonym Status = string

definition StatusPending :: Status where
  "StatusPending = ''pending''"

definition StatusProcessing :: Status where
  "StatusProcessing = ''processing''"

definition StatusCompleted :: Status where
  "StatusCompleted = ''completed''"

definition StatusFailed :: Status where
  "StatusFailed = ''failed''"

definition StatusRetrying :: Status where
  "StatusRetrying = ''retrying''"

text \<open>The command of the control service; its payload is a Go \<^verbatim>\<open>any\<close>.\<close>

record 'p CreateJobCommand =
  Queue :: string
  Type :: string
  Payload :: 'p

record Job =
  ID :: UUID
  Queue :: string
  Type :: string
  Status :: Status
  Attempts :: goint
  Payload :: bytes
  Error :: string
  ScheduledFor :: "Time option"
  CreatedAt :: Time
  UpdatedAt :: Time

section \<open>The world outside the services\<close>

text \<open>
  The services reach their collaborators through the ports \<^verbatim>\<open>JobRepository\<close>,
  \<^verbatim>\<open>QueueService\<close>, \<^verbatim>\<open>InsightRepository\<close> and \<^verbatim>\<open>AIService\<close>. Every call of a port
  method that can return an error is recorded, in order.
\<close>

datatype call =
    JobRepository_Create_call Job
  | JobRepository_GetByID_call UUID
  | JobRepository_Update_call Job
  | JobRepository_CountByStatus_call Status
  | JobRepository_MoveToDLQ_call UUID
  | JobRepository_CountDLQJobs_call
  | QueueService_Enqueue_call Job
  | InsightRepository_Create_call Insight
  | InsightRepository_GetByID_call UUID
  | InsightRepository_GetByJobID_call UUID
  | AIService_Analyze_call AnalysisRequest

text \<open>
  The state that the services read and change:
  \<^item> \<open>jobs\<close> and \<open>insights\<close>: the rows of the two tables of the metadata store;
  \<^item> \<open>queues\<close>: the broker's list under the key \<^verbatim>\<open>queue:<name>\<close>, leftmost element
    first. An envelope is the JSON text of a job, which determines the job: the model
    carries the job;
  \<^item> \<open>metrics\<close>: the counters of the in-memory metrics service;
  \<^item> \<open>analyzer\<close>: what the remote analyzer answers to a request;
  \<^item> \<open>faults\<close>: which port calls return an error. The call number \<open>n\<close> (counted
    from 0 over \<open>calls\<close>) returns \<open>e\<close> when \<open>faults n = Some e\<close>, and leaves the stores
    as they are. Nothing restricts \<open>faults\<close>, so every pattern of store, broker and
    analyzer failures is covered;
  \<^item> \<open>calls\<close>: the port calls made so far, oldest first;
  \<^item> \<open>goroutines\<close>: the job ids for which a detached analysis task was started
    (\<^verbatim>\<open>go func() { ... AnalyzeJobFailure(context.Background(), job.ID) ... }()\<close>);
  \<^item> \<open>clock\<close>: what \<^verbatim>\<open>time.Now().UTC()\<close> and the database's \<^verbatim>\<open>NOW()\<close> return;
  \<^item> \<open>next_uuid\<close>: what \<^verbatim>\<open>uuid.New()\<close> returns next.
\<close>

record world =
  jobs :: "Job list"
  insights :: "Insight list"
  queues :: "string \<Rightarrow> Job list"
  metrics :: "string \<rightharpoonup> int64"
  analyzer :: "AnalysisRequest \<Rightarrow> AnalysisResponse"
  faults :: "nat \<Rightarrow> error option"
  calls :: "call list"
  goroutines :: "UUID list"
  clock :: Time
  next_uuid :: UUID

definition invoke :: "call \<Rightarrow> world \<Rightarrow> error option \<times> world" where
  "invoke c w = (faults w (length (calls w)), w\<lparr>calls := calls w @ [c]\<rparr>)"

text \<open>How often the analyzer has been invoked, read off the record of calls.\<close>

fun is_Analyze :: "call \<Rightarrow> bool" where
  "is_Analyze (AIService_Analyze_call _) = True"
| "is_Analyze _ = False"

definition analyzer_invocations :: "world \<Rightarrow> nat" where
  "analyzer_invocations w = length (filter is_Analyze (calls w))"

definition uuid_New :: "world \<Rightarrow> UUID \<times> world" where
  "uuid_New w = (next_uuid w, w\<lparr>next_uuid := Suc (next_uuid w)\<rparr>)"

text \<open>\<^verbatim>\<open>time.Sleep(d)\<close> returns at once when \<open>d\<close> is not positive.\<close>

definition time_Sleep :: "Duration \<Rightarrow> world \<Rightarrow> world" where
  "time_Sleep d w = w\<lparr>clock := clock w + max 0 (sint d)\<rparr>"

section \<open>Domain: the job entity (package queue)\<close>

text \<open>
  The methods of \<^verbatim>\<open>*Job\<close> mutate the receiver; here they return the new value. Each
  reads the clock once (\<^verbatim>\<open>time.Now().UTC()\<close>), which is the argument \<open>now\<close>.
\<close>

definition NewJob :: "string \<Rightarrow> string \<Rightarrow> bytes \<Rightarrow> world \<Rightarrow> (error + Job) \<times> world" where
  "NewJob queue jobType payload w =
     (if queue = [] then (Inl ErrInvalidQueue, w)
      else if jobType = [] then (Inl ErrInvalidType, w)
      else
        let now = clock w;
            (uid, w1) = uuid_New w
        in (Inr \<lparr>ID = uid, Queue = queue, Type = jobType, Status = StatusPending,
                  Attempts = 0, Payload = payload, Error = [], ScheduledFor = None,
                  CreatedAt = now, UpdatedAt = now\<rparr>, w1))"

definition CanRetry :: "Job \<Rightarrow> goint \<Rightarrow> bool" where
  "CanRetry j maxAttempts \<longleftrightarrow> Attempts j <s maxAttempts \<and> Status j = StatusFailed"

definition MarkAsProcessing :: "Time \<Rightarrow> Job \<Rightarrow> Job" where
  "MarkAsProcessing now j = j\<lparr>Status := StatusProcessing, UpdatedAt := now\<rparr>"

definition MarkAsCompleted :: "Time \<Rightarrow> Job \<Rightarrow> Job" where
  "MarkAsCompleted now j = j\<lparr>Status := StatusCompleted, UpdatedAt := now\<rparr>"

text \<open>
  \<^verbatim>\<open>MarkAsFailed(err error)\<close> sets the status and then calls \<^verbatim>\<open>err.Error()\<close>: on the
  nil interface value that is a nil dereference, and the call panics.
\<close>

definition MarkAsFailed :: "error option \<Rightarrow> Time \<Rightarrow> Job \<Rightarrow> error + Job" where
  "MarkAsFailed err now j =
     (case err of
        None \<Rightarrow> Inl nil_dereference
      | Some e \<Rightarrow>
          Inr (j\<lparr>Status := StatusFailed, Error := ErrorString e,
                 Attempts := Attempts j + 1, UpdatedAt := now\<rparr>))"

definition MarkAsRetrying :: "Time \<Rightarrow> Job \<Rightarrow> Job" where
  "MarkAsRetrying now j = j\<lparr>Status := StatusRetrying, UpdatedAt := now\<rparr>"

definition Schedule :: "Time \<Rightarrow> Time \<Rightarrow> Job \<Rightarrow> Job" where
  "Schedule scheduledFor now j = j\<lparr>ScheduledFor := Some scheduledFor, UpdatedAt := now\<rparr>"

definition IsReady :: "Time \<Rightarrow> Job \<Rightarrow> bool" where
  "IsReady now j =
     (if Status j \<noteq> StatusPending \<and> Status j \<noteq> StatusRetrying then False
      else if (case ScheduledFor j of None \<Rightarrow> False | Some t \<Rightarrow> now < t) then False
      else True)"

section \<open>Domain: backoff (package worker)\<close>

text \<open>
  \<^verbatim>\<open>time.Duration(baseMs*(1<<attempt)) * time.Millisecond\<close>: a shift by 64 or more
  gives 0 in Go, as \<open>push_bit\<close> does on a 64-bit word, and both products wrap.
\<close>

definition CalculateBackoff :: "goint \<Rightarrow> goint \<Rightarrow> Duration" where
  "CalculateBackoff attempt baseMs =
     (let attempt = (if attempt <s 0 then 0 else attempt)
      in (baseMs * push_bit (unat attempt) 1) * Millisecond)"

section \<open>Domain: insights (package insights)\<close>

definition NewInsight :: "UUID \<Rightarrow> AnalysisResponse option \<Rightarrow> world \<Rightarrow> (error + Insight) \<times> world" where
  "NewInsight jobID response w =
     (if jobID = uuid_Nil then (Inl ErrInvalidJobID, w)
      else
        (case response of
           None \<Rightarrow> (Inl ErrInvalidAnalysisData, w)
         | Some r \<Rightarrow>
             if AnalysisResponse.Diagnosis r = [] then (Inl ErrInvalidAnalysisData, w)
             else
               let (uid, w1) = uuid_New w
               in (Inr \<lparr>Insight.ID = uid, JobID = jobID,
                         Diagnosis = AnalysisResponse.Diagnosis r,
                         Recommendation = AnalysisResponse.Recommendation r,
                         SuggestedFix = AnalysisResponse.SuggestedFix r,
                         Insight.CreatedAt = clock w1\<rparr>, w1)))"

text \<open>
  \<^verbatim>\<open>ApplySuggestedFix\<close> decodes the payload into a \<^verbatim>\<open>map[string]any\<close>, writes every
  entry of the patch into it and encodes the map again. The two functions of
  \<^verbatim>\<open>encoding/json\<close> are parameters: \<open>json_Unmarshal\<close> gives an error, the nil map (for
  the document \<^verbatim>\<open>null\<close>) or a map; writing into the nil map panics. The ranged
  assignments \<^verbatim>\<open>payload[key] = value\<close> over the patch give \<open>payload ++ patch\<close>.
\<close>

definition ApplySuggestedFix ::
  "(bytes \<Rightarrow> error + (string \<rightharpoonup> jvalue) option) \<Rightarrow> ((string \<rightharpoonup> jvalue) \<Rightarrow> error + bytes)
     \<Rightarrow> Insight \<Rightarrow> bytes \<Rightarrow> error + bytes" where
  "ApplySuggestedFix json_Unmarshal json_Marshal i originalPayload =
     (if PayloadPatch (SuggestedFix i) = Map.empty then Inr originalPayload
      else
        (case json_Unmarshal originalPayload of
           Inl err \<Rightarrow> Inl err
         | Inr None \<Rightarrow> Inl nil_map_write
         | Inr (Some payload) \<Rightarrow> json_Marshal (payload ++ PayloadPatch (SuggestedFix i))))"

definition HasTimeoutRecommendation :: "Insight \<Rightarrow> bool" where
  "HasTimeoutRecommendation i \<longleftrightarrow> 0 <s TimeoutSeconds (SuggestedFix i)"

definition HasRetryRecommendation :: "Insight \<Rightarrow> bool" where
  "HasRetryRecommendation i \<longleftrightarrow> 0 <s MaxRetries (SuggestedFix i)"

section \<open>Adapters: the metadata store, the dispatch channel, the analyzer, the metrics\<close>

subsection \<open>PostgresJobRepository\<close>

text \<open>
  \<^verbatim>\<open>INSERT INTO jobs ...\<close>: the primary key refuses a second row with the same id.
\<close>

definition JobRepository_Create :: "Job \<Rightarrow> world \<Rightarrow> error option \<times> world" where
  "JobRepository_Create job w =
     (case invoke (JobRepository_Create_call job) w of
        (Some err, w1) \<Rightarrow> (Some err, w1)
      | (None, w1) \<Rightarrow>
          (case find (\<lambda>r. ID r = ID job) (jobs w1) of
             Some _ \<Rightarrow> (Some (External ''duplicate key value violates unique constraint''), w1)
           | None \<Rightarrow> (None, w1\<lparr>jobs := jobs w1 @ [job]\<rparr>)))"

text \<open>\<^verbatim>\<open>SELECT ... FROM jobs WHERE id = $1\<close>, scanned into a job.\<close>

definition JobRepository_GetByID :: "UUID \<Rightarrow> world \<Rightarrow> (error + Job) \<times> world" where
  "JobRepository_GetByID uid w =
     (case invoke (JobRepository_GetByID_call uid) w of
        (Some err, w1) \<Rightarrow> (Inl err, w1)
      | (None, w1) \<Rightarrow>
          (case find (\<lambda>r. ID r = uid) (jobs w1) of
             None \<Rightarrow> (Inl ErrNoRows, w1)
           | Some job \<Rightarrow> (Inr job, w1)))"

text \<open>
  \<^verbatim>\<open>UPDATE jobs SET status, attempts, payload, scheduled_for, updated_at, error
  WHERE id = $7\<close>: the other columns keep their values, and a statement that matches no
  row is not an error.
\<close>

definition JobRepository_Update :: "Job \<Rightarrow> world \<Rightarrow> error option \<times> world" where
  "JobRepository_Update job w =
     (case invoke (JobRepository_Update_call job) w of
        (Some err, w1) \<Rightarrow> (Some err, w1)
      | (None, w1) \<Rightarrow>
          (None, w1\<lparr>jobs :=
             map (\<lambda>r. if ID r = ID job
                       then r\<lparr>Status := Status job, Attempts := Attempts job,
                              Payload := Payload job, ScheduledFor := ScheduledFor job,
                              UpdatedAt := UpdatedAt job, Error := Error job\<rparr>
                       else r) (jobs w1)\<rparr>))"

text \<open>\<^verbatim>\<open>SELECT COUNT(*) FROM jobs WHERE status = $1\<close>.\<close>

definition JobRepository_CountByStatus :: "Status \<Rightarrow> world \<Rightarrow> (error + int64) \<times> world" where
  "JobRepository_CountByStatus status w =
     (case invoke (JobRepository_CountByStatus_call status) w of
        (Some err, w1) \<Rightarrow> (Inl err, w1)
      | (None, w1) \<Rightarrow> (Inr (of_nat (length (filter (\<lambda>r. Status r = status) (jobs w1)))), w1))"

text \<open>\<^verbatim>\<open>UPDATE jobs SET status = 'failed', updated_at = NOW() WHERE id = $2\<close>.\<close>

definition JobRepository_MoveToDLQ :: "UUID \<Rightarrow> world \<Rightarrow> error option \<times> world" where
  "JobRepository_MoveToDLQ jobID w =
     (case invoke (JobRepository_MoveToDLQ_call jobID) w of
        (Some err, w1) \<Rightarrow> (Some err, w1)
      | (None, w1) \<Rightarrow>
          (None, w1\<lparr>jobs :=
             map (\<lambda>r. if ID r = jobID then r\<lparr>Status := StatusFailed, UpdatedAt := clock w1\<rparr>
                       else r) (jobs w1)\<rparr>))"

text \<open>\<^verbatim>\<open>SELECT COUNT(*) FROM jobs WHERE status = 'failed' AND attempts >= 3\<close>.\<close>

definition JobRepository_CountDLQJobs :: "world \<Rightarrow> (error + int64) \<times> world" where
  "JobRepository_CountDLQJobs w =
     (case invoke JobRepository_CountDLQJobs_call w of
        (Some err, w1) \<Rightarrow> (Inl err, w1)
      | (None, w1) \<Rightarrow>
          (Inr (of_nat (length (filter (\<lambda>r. Status r = StatusFailed \<and> 3 \<le>s Attempts r) (jobs w1)))),
           w1))"

subsection \<open>RedisQueueService\<close>

text \<open>\<^verbatim>\<open>LPUSH queue:<job.Queue> <envelope>\<close>: the envelope goes to the left end.\<close>

definition QueueService_Enqueue :: "Job \<Rightarrow> world \<Rightarrow> error option \<times> world" where
  "QueueService_Enqueue job w =
     (case invoke (QueueService_Enqueue_call job) w of
        (Some err, w1) \<Rightarrow> (Some err, w1)
      | (None, w1) \<Rightarrow> (None, w1\<lparr>queues := (queues w1)(Queue job := job # queues w1 (Queue job))\<rparr>))"

subsection \<open>PostgresInsightRepository\<close>

text \<open>
  \<^verbatim>\<open>INSERT INTO insights ...\<close>: the primary key refuses a second row with the same
  id, and \<^verbatim>\<open>job_id\<close> references a row of \<^verbatim>\<open>jobs\<close>.
\<close>

definition InsightRepository_Create :: "Insight \<Rightarrow> world \<Rightarrow> error option \<times> world" where
  "InsightRepository_Create insight w =
     (case invoke (InsightRepository_Create_call insight) w of
        (Some err, w1) \<Rightarrow> (Some err, w1)
      | (None, w1) \<Rightarrow>
          if find (\<lambda>r. Insight.ID r = Insight.ID insight) (insights w1) \<noteq> None
          then (Some (External ''duplicate key value violates unique constraint''), w1)
          else if find (\<lambda>r. ID r = JobID insight) (jobs w1) = None
          then (Some (External ''insert violates foreign key constraint''), w1)
          else (None, w1\<lparr>insights := insights w1 @ [insight]\<rparr>))"

definition InsightRepository_GetByID :: "UUID \<Rightarrow> world \<Rightarrow> (error + Insight) \<times> world" where
  "InsightRepository_GetByID uid w =
     (case invoke (InsightRepository_GetByID_call uid) w of
        (Some err, w1) \<Rightarrow> (Inl err, w1)
      | (None, w1) \<Rightarrow>
          (case find (\<lambda>r. Insight.ID r = uid) (insights w1) of
             None \<Rightarrow> (Inl ErrNoRows, w1)
           | Some insight \<Rightarrow> (Inr insight, w1)))"

text \<open>
  \<^verbatim>\<open>... WHERE job_id = $1 ORDER BY created_at DESC LIMIT 1\<close>: a row of the job with
  the greatest \<^verbatim>\<open>created_at\<close>. Among rows with the same greatest time SQL leaves the
  choice open; \<open>newest\<close> takes the first one.
\<close>

fun newest :: "Insight list \<Rightarrow> Insight option" where
  "newest [] = None"
| "newest (x # xs) =
     (case newest xs of
        None \<Rightarrow> Some x
      | Some y \<Rightarrow> if Insight.CreatedAt x < Insight.CreatedAt y then Some y else Some x)"

definition InsightRepository_GetByJobID :: "UUID \<Rightarrow> world \<Rightarrow> (error + Insight) \<times> world" where
  "InsightRepository_GetByJobID jobID w =
     (case invoke (InsightRepository_GetByJobID_call jobID) w of
        (Some err, w1) \<Rightarrow> (Inl err, w1)
      | (None, w1) \<Rightarrow>
          (case newest (filter (\<lambda>r. JobID r = jobID) (insights w1)) of
             None \<Rightarrow> (Inl ErrNoRows, w1)
           | Some insight \<Rightarrow> (Inr insight, w1)))"

subsection \<open>The analyzer (port AIService)\<close>

text \<open>Both adapters of the port return a response whenever they return no error.\<close>

definition AIService_Analyze :: "AnalysisRequest \<Rightarrow> world \<Rightarrow> (error + AnalysisResponse) \<times> world" where
  "AIService_Analyze request w =
     (case invoke (AIService_Analyze_call request) w of
        (Some err, w1) \<Rightarrow> (Inl err, w1)
      | (None, w1) \<Rightarrow> (Inr (analyzer w1 request), w1))"

subsection \<open>InMemoryMetricsService\<close>

text \<open>\<^verbatim>\<open>s.metrics[key]++\<close>: a missing key counts from zero.\<close>

definition increment :: "string \<Rightarrow> world \<Rightarrow> world" where
  "increment key w =
     w\<lparr>metrics := (metrics w)(key \<mapsto> (case metrics w key of None \<Rightarrow> 1 | Some n \<Rightarrow> n + 1))\<rparr>"

definition RecordJobCreated :: "string \<Rightarrow> string \<Rightarrow> world \<Rightarrow> world" where
  "RecordJobCreated queue jobType w = increment (''created:'' @ queue @ '':'' @ jobType) w"

definition RecordJobCompleted :: "string \<Rightarrow> string \<Rightarrow> world \<Rightarrow> world" where
  "RecordJobCompleted queue jobType w = increment (''completed:'' @ queue @ '':'' @ jobType) w"

definition RecordJobFailed :: "string \<Rightarrow> string \<Rightarrow> world \<Rightarrow> world" where
  "RecordJobFailed queue jobType w = increment (''failed:'' @ queue @ '':'' @ jobType) w"

definition RecordJobRetried :: "string \<Rightarrow> string \<Rightarrow> world \<Rightarrow> world" where
  "RecordJobRetried queue jobType w = increment (''retried:'' @ queue @ '':'' @ jobType) w"

section \<open>Application services\<close>

subsection \<open>The insights service\<close>

text \<open>
  \<^verbatim>\<open>AnalyzeJobFailure\<close> returns the stored insight when the lookup returns one without
  an error; on any error of the lookup (no row, or a failure of the store) it loads the
  job, calls the analyzer, builds an insight and stores it.
\<close>

definition AnalyzeJobFailure :: "UUID \<Rightarrow> world \<Rightarrow> (error + Insight) \<times> world" where
  "AnalyzeJobFailure jobID w =
     (case InsightRepository_GetByJobID jobID w of
        (Inr existingInsight, w1) \<Rightarrow> (Inr existingInsight, w1)
      | (Inl _, w1) \<Rightarrow>
          (case JobRepository_GetByID jobID w1 of
             (Inl err, w2) \<Rightarrow> (Inl err, w2)
           | (Inr job, w2) \<Rightarrow>
               (case AIService_Analyze
                       \<lparr>AnalysisRequest.JobID = ID job, AnalysisRequest.Error = Error job,
                        AnalysisRequest.Payload = Payload job\<rparr> w2 of
                  (Inl err, w3) \<Rightarrow> (Inl err, w3)
                | (Inr response, w3) \<Rightarrow>
                    (case NewInsight jobID (Some response) w3 of
                       (Inl err, w4) \<Rightarrow> (Inl err, w4)
                     | (Inr insight, w4) \<Rightarrow>
                         (case InsightRepository_Create insight w4 of
                            (Some err, w5) \<Rightarrow> (Inl err, w5)
                          | (None, w5) \<Rightarrow> (Inr insight, w5))))))"

definition ApplyInsightFix ::
  "(bytes \<Rightarrow> error + (string \<rightharpoonup> jvalue) option) \<Rightarrow> ((string \<rightharpoonup> jvalue) \<Rightarrow> error + bytes)
     \<Rightarrow> UUID \<Rightarrow> world \<Rightarrow> error option \<times> world" where
  "ApplyInsightFix json_Unmarshal json_Marshal insightID w =
     (case InsightRepository_GetByID insightID w of
        (Inl err, w1) \<Rightarrow> (Some err, w1)
      | (Inr insight, w1) \<Rightarrow>
          (case JobRepository_GetByID (JobID insight) w1 of
             (Inl err, w2) \<Rightarrow> (Some err, w2)
           | (Inr job, w2) \<Rightarrow>
               (case (if PayloadPatch (SuggestedFix insight) \<noteq> Map.empty
                      then (case ApplySuggestedFix json_Unmarshal json_Marshal insight (Payload job) of
                              Inl err \<Rightarrow> Inl err
                            | Inr patchedPayload \<Rightarrow> Inr (job\<lparr>Payload := patchedPayload\<rparr>))
                      else Inr job) of
                  Inl err \<Rightarrow> (Some err, w2)
                | Inr job1 \<Rightarrow>
                    let job2 = (if HasRetryRecommendation insight
                                then MarkAsRetrying (clock w2) job1 else job1)
                    in JobRepository_Update job2 w2)))"

subsection \<open>The worker service\<close>

text \<open>
  The service holds a pointer to the insights service, which may be nil
  (\<open>insightsService = False\<close>), and its configuration.
\<close>

record WorkerService =
  insightsService :: bool
  config :: WorkerConfig

text \<open>
  \<^verbatim>\<open>handleJobFailure\<close> mutates the job it is given: the result carries the job as the
  call leaves it. The goroutine it starts runs \<^verbatim>\<open>AnalyzeJobFailure\<close> on its own; the call
  only starts it.
\<close>

definition handleJobFailure ::
  "WorkerService \<Rightarrow> Job \<Rightarrow> error option \<Rightarrow> world \<Rightarrow> (error option \<times> Job) \<times> world" where
  "handleJobFailure s job execError w =
     (case MarkAsFailed execError (clock w) job of
        Inl p \<Rightarrow> ((Some p, job\<lparr>Status := StatusFailed\<rparr>), w)
      | Inr job1 \<Rightarrow>
          let w1 = (if insightsService s \<and> Attempts job1 = 1
                    then w\<lparr>goroutines := goroutines w @ [ID job1]\<rparr> else w)
          in
            if CanRetry job1 (MaxAttempts (config s)) then
              let backoff = CalculateBackoff (Attempts job1) (BaseBackoffMs (config s));
                  retryTime = clock w1 + sint backoff;
                  job2 = MarkAsRetrying (clock w1) (Schedule retryTime (clock w1) job1)
              in
                (case JobRepository_Update job2 w1 of
                   (Some err, w2) \<Rightarrow> ((Some err, job2), w2)
                 | (None, w2) \<Rightarrow>
                     (case QueueService_Enqueue job2 (time_Sleep backoff w2) of
                        (r, w3) \<Rightarrow> ((r, job2), w3)))
            else
              (case JobRepository_MoveToDLQ (ID job1) w1 of
                 (Some err, w2) \<Rightarrow> ((Some err, job1), w2)
               | (None, w2) \<Rightarrow>
                   (case JobRepository_Update job1 w2 of
                      (r, w3) \<Rightarrow> ((r, job1), w3))))"

subsection \<open>The queue service (control service)\<close>

text \<open>
  \<^verbatim>\<open>CreateJob\<close> encodes the payload first; \<open>json_Marshal\<close> is \<^verbatim>\<open>json.Marshal\<close> on the
  command's payload.
\<close>

definition CreateJob ::
  "('p \<Rightarrow> error + bytes) \<Rightarrow> 'p CreateJobCommand \<Rightarrow> world \<Rightarrow> (error + Job) \<times> world" where
  "CreateJob json_Marshal cmd w =
     (case json_Marshal (CreateJobCommand.Payload cmd) of
        Inl err \<Rightarrow> (Inl err, w)
      | Inr payloadBytes \<Rightarrow>
          (case NewJob (CreateJobCommand.Queue cmd) (CreateJobCommand.Type cmd) payloadBytes w of
             (Inl err, w1) \<Rightarrow> (Inl err, w1)
           | (Inr job, w1) \<Rightarrow>
               (case JobRepository_Create job w1 of
                  (Some err, w2) \<Rightarrow> (Inl err, w2)
                | (None, w2) \<Rightarrow>
                    (case QueueService_Enqueue job w2 of
                       (Some err, w3) \<Rightarrow> (Inl err, w3)
                     | (None, w3) \<Rightarrow> (Inr job, RecordJobCreated (Queue job) (Type job) w3)))))"

text \<open>
  \<^verbatim>\<open>UpdateJobStatus\<close>: the \<^verbatim>\<open>switch\<close> has a case for three statuses and no default;
  the case for \<^verbatim>\<open>StatusFailed\<close> calls \<^verbatim>\<open>job.MarkAsFailed(nil)\<close>.
\<close>

definition UpdateJobStatus :: "UUID \<Rightarrow> Status \<Rightarrow> world \<Rightarrow> error option \<times> world" where
  "UpdateJobStatus jobID status w =
     (case JobRepository_GetByID jobID w of
        (Inl err, w1) \<Rightarrow> (Some err, w1)
      | (Inr job, w1) \<Rightarrow>
          if status = StatusProcessing then
            JobRepository_Update (MarkAsProcessing (clock w1) job) w1
          else if status = StatusCompleted then
            (let job1 = MarkAsCompleted (clock w1) job
             in JobRepository_Update job1 (RecordJobCompleted (Queue job1) (Type job1) w1))
          else if status = StatusFailed then
            (case MarkAsFailed None (clock w1) job of
               Inl p \<Rightarrow> (Some p, w1)
             | Inr job1 \<Rightarrow> JobRepository_Update job1 (RecordJobFailed (Queue job1) (Type job1) w1))
          else JobRepository_Update job w1)"

definition RetryJob :: "UUID \<Rightarrow> goint \<Rightarrow> world \<Rightarrow> error option \<times> world" where
  "RetryJob jobID maxAttempts w =
     (case JobRepository_GetByID jobID w of
        (Inl err, w1) \<Rightarrow> (Some err, w1)
      | (Inr job, w1) \<Rightarrow>
          if \<not> CanRetry job maxAttempts then (Some ErrMaxAttemptsReached, w1)
          else
            let job1 = MarkAsRetrying (clock w1) job
            in
              (case JobRepository_Update job1 w1 of
                 (Some err, w2) \<Rightarrow> (Some err, w2)
               | (None, w2) \<Rightarrow>
                   (case QueueService_Enqueue job1 w2 of
                      (Some err, w3) \<Rightarrow> (Some err, w3)
                    | (None, w3) \<Rightarrow> (None, RecordJobRetried (Queue job1) (Type job1) w3))))"

text \<open>
  \<^verbatim>\<open>GetMetrics\<close> ranges over a list of four statuses, stores each count under the
  status's name, and stores the count of the dead-letter view under \<^verbatim>\<open>"dlq"\<close>.
  \<open>count_statuses\<close> is the loop; it returns at the first error.
\<close>

fun count_statuses ::
  "Status list \<Rightarrow> (string \<rightharpoonup> int64) \<Rightarrow> world \<Rightarrow> (error + (string \<rightharpoonup> int64)) \<times> world" where
  "count_statuses [] m w = (Inr m, w)"
| "count_statuses (status # rest) m w =
     (case JobRepository_CountByStatus status w of
        (Inl err, w1) \<Rightarrow> (Inl err, w1)
      | (Inr count, w1) \<Rightarrow> count_statuses rest (m(status \<mapsto> count)) w1)"

definition GetMetrics :: "world \<Rightarrow> (error + (string \<rightharpoonup> int64)) \<times> world" where
  "GetMetrics w =
     (case count_statuses [StatusPending, StatusProcessing, StatusCompleted, StatusFailed]
             Map.empty w of
        (Inl err, w1) \<Rightarrow> (Inl err, w1)
      | (Inr m, w1) \<Rightarrow>
          (case JobRepository_CountDLQJobs w1 of
             (Inl err, w2) \<Rightarrow> (Inl err, w2)
           | (Inr dlqCount, w2) \<Rightarrow> (Inr (m(''dlq'' \<mapsto> dlqCount)), w2)))"

section \<open>Example values\<close>

text \<open>A job, a configuration, an analyzer response and a state, for the concrete instances.\<close>

definition job_a :: Job where
  "job_a = \<lparr>ID = 1, Queue = ''default'', Type = ''email'', Status = StatusProcessing,
            Attempts = 0, Payload = ''{}'', Error = [], ScheduledFor = None,
            CreatedAt = 0, UpdatedAt = 0\<rparr>"

definition config_a :: WorkerConfig where
  "config_a = \<lparr>QueueName = ''default'', MaxAttempts = 3, BaseBackoffMs = 500,
               PollInterval = 5000000000\<rparr>"

definition response_a :: AnalysisResponse where
  "response_a = \<lparr>AnalysisResponse.Diagnosis = ''smtp timeout'',
                 AnalysisResponse.Recommendation = ''raise the timeout'',
                 AnalysisResponse.SuggestedFix =
                   \<lparr>TimeoutSeconds = 30, MaxRetries = 0, PayloadPatch = Map.empty\<rparr>\<rparr>"

definition world_a :: world where
  "world_a = \<lparr>jobs = [job_a], insights = [], queues = (\<lambda>_. []), metrics = Map.empty,
              analyzer = (\<lambda>_. response_a), faults = (\<lambda>_. None), calls = [],
              goroutines = [], clock = 100, next_uuid = 2\<rparr>"

definition service_a :: WorkerService where
  "service_a = \<lparr>insightsService = True, config = config_a\<rparr>"

definition insight_a :: Insight where
  "insight_a = \<lparr>Insight.ID = 2, JobID = 1, Diagnosis = ''smtp timeout'',
                Recommendation = ''raise the timeout'',
                SuggestedFix = \<lparr>TimeoutSeconds = 30, MaxRetries = 0, PayloadPatch = Map.empty\<rparr>,
                Insight.CreatedAt = 100\<rparr>"

text \<open>
  The same world with a store that fails the fifth call made to it: after a first
  \<^verbatim>\<open>AnalyzeJobFailure\<close>, which makes four calls, that is the lookup of a second one.
\<close>

definition world_b :: world where
  "world_b = world_a\<lparr>faults := (\<lambda>n. if n = 4 then Some (External ''connection refused'')
                                      else None)\<rparr>"

text \<open>
  A stand-in for \<^verbatim>\<open>encoding/json\<close> on two documents, for the concrete instances of
  \<open>ApplySuggestedFix\<close>.
\<close>

definition unmarshal_a :: "bytes \<Rightarrow> error + (string \<rightharpoonup> jvalue) option" where
  "unmarshal_a b =
     (if b = ''{retries:1}'' then Inr (Some [''retries'' \<mapsto> JNumber 1])
      else if b = ''{retries:5}'' then Inr (Some [''retries'' \<mapsto> JNumber 5])
      else if b = ''null'' then Inr None
      else Inl (External ''invalid character''))"

definition marshal_a :: "(string \<rightharpoonup> jvalue) \<Rightarrow> error + bytes" where
  "marshal_a m =
     (if m = [''retries'' \<mapsto> JNumber 1] then Inr ''{retries:1}''
      else if m = [''retries'' \<mapsto> JNumber 5] then Inr ''{retries:5}''
      else Inl (External ''unsupported value''))"

section \<open>Auxiliary facts\<close>

subsection \<open>Lists and machine integers\<close>

lemma sint_succ:
  fixes a :: goint
  assumes "sint a < 2 ^ 63 - 1"
  shows "sint (a + 1) = sint a + 1"
proof -
  have "- (2 ^ 63) \<le> sint a"
    using sint_ge [of a] by simp
  with assms have "signed_take_bit 63 (sint a + 1) = sint a + 1"
    by (intro signed_take_bit_int_eq_self) simp_all
  then show ?thesis
    by (simp add: sint_word_ariths)
qed

lemma find_map_same_key:
  assumes "\<And>x. P (f x) = P x"
  shows "find P (map f xs) = map_option f (find P xs)"
  using assms by (induction xs) auto

lemma find_map_row:
  assumes "\<And>r. ID (f r) = ID r"
  shows "find (\<lambda>r. ID r = i) (map (\<lambda>r. if ID r = k then f r else r) rows)
           = (if i = k then map_option f (find (\<lambda>r. ID r = i) rows)
              else find (\<lambda>r. ID r = i) rows)"
  by (induction rows) (auto simp: assms)

lemma find_append_Some:
  "find P xs = Some r \<Longrightarrow> find P (xs @ ys) = Some r"
  by (induction xs) (auto split: if_splits)

lemma find_holds: "find P xs = Some x \<Longrightarrow> P x"
  by (induction xs) (auto split: if_splits)

lemma find_ID_unique:
  assumes "find (\<lambda>r. ID r = i) rows = Some a" and "find (\<lambda>r. ID r = k) rows = Some b"
    and "ID a = ID b"
  shows "a = b"
proof -
  from assms(1) have "ID a = i" by (rule find_holds)
  moreover from assms(2) have "ID b = k" by (rule find_holds)
  ultimately have "i = k" using assms(3) by simp
  with assms(1, 2) show ?thesis by simp
qed

subsection \<open>What a port call returns and what it leaves behind\<close>

named_theorems port_simps

lemma invoke_fst [port_simps]: "fst (invoke c w) = faults w (length (calls w))"
  by (simp add: invoke_def)

lemma invoke_snd [port_simps]: "snd (invoke c w) = w\<lparr>calls := calls w @ [c]\<rparr>"
  by (simp add: invoke_def)

lemma JobRepository_Create_fst [port_simps]:
  "fst (JobRepository_Create job w) =
     (case faults w (length (calls w)) of
        Some err \<Rightarrow> Some err
      | None \<Rightarrow> (case find (\<lambda>r. ID r = ID job) (jobs w) of
                   Some _ \<Rightarrow> Some (External ''duplicate key value violates unique constraint'')
                 | None \<Rightarrow> None))"
  by (simp add: JobRepository_Create_def invoke_def split: option.splits)

lemma JobRepository_Create_snd [port_simps]:
  "snd (JobRepository_Create job w) =
     (if faults w (length (calls w)) = None \<and> find (\<lambda>r. ID r = ID job) (jobs w) = None
      then w\<lparr>calls := calls w @ [JobRepository_Create_call job], jobs := jobs w @ [job]\<rparr>
      else w\<lparr>calls := calls w @ [JobRepository_Create_call job]\<rparr>)"
  by (auto simp add: JobRepository_Create_def invoke_def split: option.splits)

lemma JobRepository_GetByID_fst [port_simps]:
  "fst (JobRepository_GetByID uid w) =
     (case faults w (length (calls w)) of
        Some err \<Rightarrow> Inl err
      | None \<Rightarrow> (case find (\<lambda>r. ID r = uid) (jobs w) of
                   None \<Rightarrow> Inl ErrNoRows | Some job \<Rightarrow> Inr job))"
  by (simp add: JobRepository_GetByID_def invoke_def split: option.splits)

lemma JobRepository_GetByID_snd [port_simps]:
  "snd (JobRepository_GetByID uid w) = w\<lparr>calls := calls w @ [JobRepository_GetByID_call uid]\<rparr>"
  by (simp add: JobRepository_GetByID_def invoke_def split: option.splits)

lemma JobRepository_Update_fst [port_simps]:
  "fst (JobRepository_Update job w) = faults w (length (calls w))"
  by (simp add: JobRepository_Update_def invoke_def split: option.splits)

lemma JobRepository_Update_snd [port_simps]:
  "snd (JobRepository_Update job w) =
     (if faults w (length (calls w)) = None
      then w\<lparr>calls := calls w @ [JobRepository_Update_call job],
             jobs := map (\<lambda>r. if ID r = ID job
                       then r\<lparr>Status := Status job, Attempts := Attempts job,
                              Payload := Payload job, ScheduledFor := ScheduledFor job,
                              UpdatedAt := UpdatedAt job, Error := Error job\<rparr>
                       else r) (jobs w)\<rparr>
      else w\<lparr>calls := calls w @ [JobRepository_Update_call job]\<rparr>)"
  by (auto simp add: JobRepository_Update_def invoke_def split: option.splits)

lemma JobRepository_CountByStatus_fst [port_simps]:
  "fst (JobRepository_CountByStatus status w) =
     (case faults w (length (calls w)) of
        Some err \<Rightarrow> Inl err
      | None \<Rightarrow> Inr (of_nat (length (filter (\<lambda>r. Status r = status) (jobs w)))))"
  by (simp add: JobRepository_CountByStatus_def invoke_def split: option.splits)

lemma JobRepository_CountByStatus_snd [port_simps]:
  "snd (JobRepository_CountByStatus status w) =
     w\<lparr>calls := calls w @ [JobRepository_CountByStatus_call status]\<rparr>"
  by (simp add: JobRepository_CountByStatus_def invoke_def split: option.splits)

lemma JobRepository_MoveToDLQ_fst [port_simps]:
  "fst (JobRepository_MoveToDLQ jobID w) = faults w (length (calls w))"
  by (simp add: JobRepository_MoveToDLQ_def invoke_def split: option.splits)

lemma JobRepository_MoveToDLQ_snd [port_simps]:
  "snd (JobRepository_MoveToDLQ jobID w) =
     (if faults w (length (calls w)) = None
      then w\<lparr>calls := calls w @ [JobRepository_MoveToDLQ_call jobID],
             jobs := map (\<lambda>r. if ID r = jobID
                       then r\<lparr>Status := StatusFailed, UpdatedAt := clock w\<rparr>
                       else r) (jobs w)\<rparr>
      else w\<lparr>calls := calls w @ [JobRepository_MoveToDLQ_call jobID]\<rparr>)"
  by (auto simp add: JobRepository_MoveToDLQ_def invoke_def split: option.splits)

lemma JobRepository_CountDLQJobs_fst [port_simps]:
  "fst (JobRepository_CountDLQJobs w) =
     (case faults w (length (calls w)) of
        Some err \<Rightarrow> Inl err
      | None \<Rightarrow>
          Inr (of_nat (length (filter (\<lambda>r. Status r = StatusFailed \<and> 3 \<le>s Attempts r) (jobs w)))))"
  by (simp add: JobRepository_CountDLQJobs_def invoke_def split: option.splits)

lemma JobRepository_CountDLQJobs_snd [port_simps]:
  "snd (JobRepository_CountDLQJobs w) = w\<lparr>calls := calls w @ [JobRepository_CountDLQJobs_call]\<rparr>"
  by (simp add: JobRepository_CountDLQJobs_def invoke_def split: option.splits)

lemma QueueService_Enqueue_fst [port_simps]:
  "fst (QueueService_Enqueue job w) = faults w (length (calls w))"
  by (simp add: QueueService_Enqueue_def invoke_def split: option.splits)

lemma QueueService_Enqueue_snd [port_simps]:
  "snd (QueueService_Enqueue job w) =
     (if faults w (length (calls w)) = None
      then w\<lparr>calls := calls w @ [QueueService_Enqueue_call job],
             queues := (queues w)(Queue job := job # queues w (Queue job))\<rparr>
      else w\<lparr>calls := calls w @ [QueueService_Enqueue_call job]\<rparr>)"
  by (auto simp add: QueueService_Enqueue_def invoke_def split: option.splits)

lemma InsightRepository_Create_fst [port_simps]:
  "fst (InsightRepository_Create insight w) =
     (case faults w (length (calls w)) of
        Some err \<Rightarrow> Some err
      | None \<Rightarrow>
          if find (\<lambda>r. Insight.ID r = Insight.ID insight) (insights w) \<noteq> None
          then Some (External ''duplicate key value violates unique constraint'')
          else if find (\<lambda>r. ID r = JobID insight) (jobs w) = None
          then Some (External ''insert violates foreign key constraint'')
          else None)"
  by (simp add: InsightRepository_Create_def invoke_def split: option.splits)

lemma InsightRepository_Create_snd [port_simps]:
  "snd (InsightRepository_Create insight w) =
     (if fst (InsightRepository_Create insight w) = None
      then w\<lparr>calls := calls w @ [InsightRepository_Create_call insight],
             insights := insights w @ [insight]\<rparr>
      else w\<lparr>calls := calls w @ [InsightRepository_Create_call insight]\<rparr>)"
  by (auto simp add: InsightRepository_Create_def invoke_def split: option.splits)

lemma InsightRepository_GetByID_fst [port_simps]:
  "fst (InsightRepository_GetByID uid w) =
     (case faults w (length (calls w)) of
        Some err \<Rightarrow> Inl err
      | None \<Rightarrow> (case find (\<lambda>r. Insight.ID r = uid) (insights w) of
                   None \<Rightarrow> Inl ErrNoRows | Some insight \<Rightarrow> Inr insight))"
  by (simp add: InsightRepository_GetByID_def invoke_def split: option.splits)

lemma InsightRepository_GetByID_snd [port_simps]:
  "snd (InsightRepository_GetByID uid w) =
     w\<lparr>calls := calls w @ [InsightRepository_GetByID_call uid]\<rparr>"
  by (simp add: InsightRepository_GetByID_def invoke_def split: option.splits)

lemma InsightRepository_GetByJobID_fst [port_simps]:
  "fst (InsightRepository_GetByJobID jobID w) =
     (case faults w (length (calls w)) of
        Some err \<Rightarrow> Inl err
      | None \<Rightarrow> (case newest (filter (\<lambda>r. JobID r = jobID) (insights w)) of
                   None \<Rightarrow> Inl ErrNoRows | Some insight \<Rightarrow> Inr insight))"
  by (simp add: InsightRepository_GetByJobID_def invoke_def split: option.splits)

lemma InsightRepository_GetByJobID_snd [port_simps]:
  "snd (InsightRepository_GetByJobID jobID w) =
     w\<lparr>calls := calls w @ [InsightRepository_GetByJobID_call jobID]\<rparr>"
  by (simp add: InsightRepository_GetByJobID_def invoke_def split: option.splits)

lemma AIService_Analyze_fst [port_simps]:
  "fst (AIService_Analyze request w) =
     (case faults w (length (calls w)) of
        Some err \<Rightarrow> Inl err
      | None \<Rightarrow> Inr (analyzer w request))"
  by (simp add: AIService_Analyze_def invoke_def split: option.splits)

lemma AIService_Analyze_snd [port_simps]:
  "snd (AIService_Analyze request w) = w\<lparr>calls := calls w @ [AIService_Analyze_call request]\<rparr>"
  by (simp add: AIService_Analyze_def invoke_def split: option.splits)

section \<open>The claims\<close>

subsection \<open>Backoff law\<close>

text \<open>
  Claim C2. For every attempts in 0..8 and every base in 100, 500, 1000 the backoff is
  base * 2^attempts milliseconds (as a signed count of nanoseconds, without
  wrap-around), and for every negative attempts it is base milliseconds: the same
  signed count for these three bases, and the product of the base and the millisecond
  as Go computes it for every base.
\<close>

theorem CalculateBackoff_law:
  fixes attempts :: nat and base_ms :: nat and negative :: goint and baseMs :: goint
  assumes "attempts \<le> 8" and "base_ms \<in> {100, 500, 1000}" and "negative <s 0"
  shows "sint (CalculateBackoff (of_nat attempts) (of_nat base_ms))
           = int base_ms * 2 ^ attempts * sint Millisecond
       \<and> sint (CalculateBackoff negative (of_nat base_ms)) = int base_ms * sint Millisecond
       \<and> CalculateBackoff negative baseMs = baseMs * Millisecond"
proof -
  from assms(1) have "attempts \<in> {0, 1, 2, 3, 4, 5, 6, 7, 8}"
    by auto
  with assms(2) have "sint (CalculateBackoff (of_nat attempts) (of_nat base_ms))
      = int base_ms * 2 ^ attempts * sint Millisecond"
    by (auto simp: CalculateBackoff_def Millisecond_def word_sless_alt)
  moreover from assms(2, 3) have
    "sint (CalculateBackoff negative (of_nat base_ms)) = int base_ms * sint Millisecond"
    by (auto simp: CalculateBackoff_def Millisecond_def)
  moreover from assms(3) have "CalculateBackoff negative baseMs = baseMs * Millisecond"
    by (simp add: CalculateBackoff_def)
  ultimately show ?thesis
    by simp
qed

theorem CalculateBackoff_law_witness:
  "(3::nat) \<le> 8 \<and> (500::nat) \<in> {100, 500, 1000} \<and> (- 1 :: goint) <s 0
   \<and> sint (CalculateBackoff 3 500) = 4000 * sint Millisecond
   \<and> sint (CalculateBackoff (- 1) 500) = 500 * sint Millisecond
   \<and> CalculateBackoff (- 1) 250 = 250 * Millisecond"
  using CalculateBackoff_law [of 3 500 "- 1" 250] by simp

subsection \<open>The attempts counter\<close>

lemma RetryJob_keeps_attempts:
  "map_option Attempts (find (\<lambda>r. ID r = uid) (jobs (snd (RetryJob jobID maxAttempts w))))
     = map_option Attempts (find (\<lambda>r. ID r = uid) (jobs w))"
  by (cases "find (\<lambda>r. ID r = uid) (jobs w)")
     (auto simp: RetryJob_def case_prod_beta Let_def port_simps RecordJobRetried_def increment_def
      MarkAsRetrying_def find_map_same_key
      split: option.splits sum.splits dest: find_ID_unique)

lemma NewJob_Attempts:
  "NewJob queue jobType payload w = (Inr job, w') \<Longrightarrow> Attempts job = 0"
  by (auto simp: NewJob_def uuid_New_def Let_def split: if_splits)

lemma NewJob_jobs:
  "jobs (snd (NewJob queue jobType payload w)) = jobs w"
  by (auto simp: NewJob_def uuid_New_def Let_def split: if_splits)

lemma CreateJob_keeps_rows:
  assumes "find (\<lambda>r. ID r = uid) (jobs w) = Some r"
  shows "find (\<lambda>r. ID r = uid) (jobs (snd (CreateJob json_Marshal cmd w))) = Some r"
  using assms
  by (auto simp: CreateJob_def case_prod_beta Let_def port_simps RecordJobCreated_def increment_def
      NewJob_jobs find_append_Some
      split: option.splits sum.splits)

lemma CreateJob_new_Attempts:
  "CreateJob json_Marshal cmd w = (Inr job, w') \<Longrightarrow> Attempts job = 0"
  by (auto simp: CreateJob_def split: sum.splits prod.splits option.splits dest: NewJob_Attempts)

text \<open>
  Claim C7, as amended. For every job whose attempts counter is below the greatest
  value of Go's \<^verbatim>\<open>int\<close> (2^63 - 1): marking it processing, completed or retrying and
  scheduling it leave the counter as it is, and marking it failed (with an error)
  increments it by exactly one. \<^verbatim>\<open>RetryJob\<close> leaves the stored counter of every job as it
  is, whatever the stores answer; \<^verbatim>\<open>CreateJob\<close> leaves every stored row as it is and
  creates its job with the counter at zero.
\<close>

theorem attempts_never_decrease:
  assumes "sint (Attempts j) < 2 ^ 63 - 1"
  shows "Attempts (MarkAsProcessing now j) = Attempts j
       \<and> Attempts (MarkAsCompleted now j) = Attempts j
       \<and> Attempts (MarkAsRetrying now j) = Attempts j
       \<and> Attempts (Schedule t now j) = Attempts j
       \<and> (\<exists>j'. MarkAsFailed (Some e) now j = Inr j' \<and> sint (Attempts j') = sint (Attempts j) + 1)
       \<and> (\<forall>uid. map_option Attempts (find (\<lambda>r. ID r = uid) (jobs (snd (RetryJob jobID maxAttempts w))))
                  = map_option Attempts (find (\<lambda>r. ID r = uid) (jobs w)))
       \<and> (\<forall>uid r. find (\<lambda>r. ID r = uid) (jobs w) = Some r
             \<longrightarrow> find (\<lambda>r. ID r = uid) (jobs (snd (CreateJob json_Marshal cmd w))) = Some r)
       \<and> (\<forall>job w'. CreateJob json_Marshal cmd w = (Inr job, w') \<longrightarrow> Attempts job = 0)"
proof -
  have failed: "\<exists>j'. MarkAsFailed (Some e) now j = Inr j' \<and> sint (Attempts j') = sint (Attempts j) + 1"
    using assms by (simp add: MarkAsFailed_def sint_succ)
  have retry: "\<forall>uid. map_option Attempts
        (find (\<lambda>r. ID r = uid) (jobs (snd (RetryJob jobID maxAttempts w))))
      = map_option Attempts (find (\<lambda>r. ID r = uid) (jobs w))"
    by (simp add: RetryJob_keeps_attempts)
  have rows: "\<forall>uid r. find (\<lambda>r. ID r = uid) (jobs w) = Some r
      \<longrightarrow> find (\<lambda>r. ID r = uid) (jobs (snd (CreateJob json_Marshal cmd w))) = Some r"
    by (simp add: CreateJob_keeps_rows)
  have fresh: "\<forall>job w'. CreateJob json_Marshal cmd w = (Inr job, w') \<longrightarrow> Attempts job = 0"
    by (simp add: CreateJob_new_Attempts)
  show ?thesis
    using failed retry rows fresh
    by (simp add: MarkAsProcessing_def MarkAsCompleted_def MarkAsRetrying_def Schedule_def)
qed

lemma CreateJob_world_a:
  "CreateJob Inr \<lparr>CreateJobCommand.Queue = ''default'', CreateJobCommand.Type = ''email'',
                  CreateJobCommand.Payload = ''{}''\<rparr> world_a
     = (Inr (job_a\<lparr>ID := 2, Status := StatusPending, CreatedAt := 100, UpdatedAt := 100\<rparr>),
        world_a\<lparr>jobs := [job_a, job_a\<lparr>ID := 2, Status := StatusPending, CreatedAt := 100,
                                        UpdatedAt := 100\<rparr>],
                queues := (\<lambda>_. [])(''default'' :=
                            [job_a\<lparr>ID := 2, Status := StatusPending, CreatedAt := 100,
                                   UpdatedAt := 100\<rparr>]),
                metrics := [''created:default:email'' \<mapsto> 1],
                calls := [JobRepository_Create_call
                            (job_a\<lparr>ID := 2, Status := StatusPending, CreatedAt := 100,
                                   UpdatedAt := 100\<rparr>),
                          QueueService_Enqueue_call
                            (job_a\<lparr>ID := 2, Status := StatusPending, CreatedAt := 100,
                                   UpdatedAt := 100\<rparr>)],
                next_uuid := 3\<rparr>)"
  by (simp add: CreateJob_def NewJob_def uuid_New_def Let_def JobRepository_Create_def
      QueueService_Enqueue_def invoke_def RecordJobCreated_def increment_def
      world_a_def job_a_def)

theorem attempts_never_decrease_witness:
  "sint (Attempts job_a) < 2 ^ 63 - 1
   \<and> Attempts (MarkAsProcessing 7 job_a) = Attempts job_a
   \<and> Attempts (MarkAsCompleted 7 job_a) = Attempts job_a
   \<and> Attempts (MarkAsRetrying 7 job_a) = Attempts job_a
   \<and> Attempts (Schedule 9 7 job_a) = Attempts job_a
   \<and> (\<exists>j'. MarkAsFailed (Some (External ''smtp: connection refused'')) 7 job_a = Inr j'
          \<and> sint (Attempts j') = 1)
   \<and> find (\<lambda>r. ID r = 1) (jobs world_a) = Some job_a
   \<and> map_option Attempts (find (\<lambda>r. ID r = 1) (jobs (snd (RetryJob 1 3 world_a)))) = Some 0
   \<and> find (\<lambda>r. ID r = 1)
        (jobs (snd (CreateJob Inr \<lparr>CreateJobCommand.Queue = ''default'',
                                   CreateJobCommand.Type = ''email'',
                                   CreateJobCommand.Payload = ''{}''\<rparr> world_a))) = Some job_a
   \<and> Attempts (projr (fst (CreateJob Inr \<lparr>CreateJobCommand.Queue = ''default'',
                                   CreateJobCommand.Type = ''email'',
                                   CreateJobCommand.Payload = ''{}''\<rparr> world_a))) = 0"
  using attempts_never_decrease [of job_a 7 9 "External ''smtp: connection refused''" 1 3 world_a
      Inr "\<lparr>CreateJobCommand.Queue = ''default'', CreateJobCommand.Type = ''email'',
            CreateJobCommand.Payload = ''{}''\<rparr>"]
  unfolding CreateJob_world_a
  by (simp add: job_a_def world_a_def)

text \<open>
  Claim C7 as stated fails at the greatest \<^verbatim>\<open>int\<close>: there \<^verbatim>\<open>j.Attempts++\<close> wraps
  around to the least one, and the counter decreases.
\<close>

theorem attempts_wrap_counterexample:
  "\<not> isl (MarkAsFailed (Some (External ''smtp: connection refused'')) 7
            (job_a\<lparr>Attempts := 9223372036854775807\<rparr>))
   \<and> sint (Attempts (projr (MarkAsFailed (Some (External ''smtp: connection refused'')) 7
                              (job_a\<lparr>Attempts := 9223372036854775807\<rparr>))))
       < sint (Attempts (job_a\<lparr>Attempts := 9223372036854775807\<rparr>))"
  by (simp add: MarkAsFailed_def job_a_def)

subsection \<open>UpdateJobStatus to failed\<close>

text \<open>
  Claim C10 says that \<^verbatim>\<open>UpdateJobStatus(id, failed)\<close> returns normally and stores the
  job as failed. The code does not: for every stored job whose row the store returns,
  the call panics in \<^verbatim>\<open>MarkAsFailed(nil)\<close>, after the read and before any write.
\<close>

theorem UpdateJobStatus_failed_panics:
  assumes "faults w (length (calls w)) = None"
    and "find (\<lambda>r. ID r = jobID) (jobs w) = Some job"
  shows "UpdateJobStatus jobID StatusFailed w
           = (Some nil_dereference, w\<lparr>calls := calls w @ [JobRepository_GetByID_call jobID]\<rparr>)"
  using assms
  by (simp add: UpdateJobStatus_def JobRepository_GetByID_def invoke_def MarkAsFailed_def
      StatusFailed_def StatusProcessing_def StatusCompleted_def)

theorem UpdateJobStatus_failed_panics_witness:
  "faults world_a (length (calls world_a)) = None
   \<and> find (\<lambda>r. ID r = 1) (jobs world_a) = Some job_a
   \<and> UpdateJobStatus 1 StatusFailed world_a
       = (Some nil_dereference, world_a\<lparr>calls := [JobRepository_GetByID_call 1]\<rparr>)
   \<and> is_panic nil_dereference"
  using UpdateJobStatus_failed_panics [of world_a 1 job_a]
  by (simp add: world_a_def job_a_def is_panic_def nil_dereference_def)

subsection \<open>Validation in CreateJob\<close>

text \<open>
  Claim C6, as amended. \<^verbatim>\<open>CreateJob\<close> with an empty queue or an empty type returns
  an error and changes nothing at all: no call reaches the metadata store or the
  dispatch channel, and no id is drawn. When the payload encodes, the error is
  \<^verbatim>\<open>ErrInvalidQueue\<close> for an empty queue, and \<^verbatim>\<open>ErrInvalidType\<close> for an empty type with
  a queue that is not empty. When the payload does not encode, the error is that of
  \<^verbatim>\<open>json.Marshal\<close>, which runs first.
\<close>

theorem CreateJob_validation:
  "(CreateJobCommand.Queue cmd = [] \<or> CreateJobCommand.Type cmd = []
      \<longrightarrow> (\<exists>err. CreateJob json_Marshal cmd w = (Inl err, w)))
   \<and> (json_Marshal (CreateJobCommand.Payload cmd) = Inr payloadBytes
        \<and> CreateJobCommand.Queue cmd = []
      \<longrightarrow> CreateJob json_Marshal cmd w = (Inl ErrInvalidQueue, w))
   \<and> (json_Marshal (CreateJobCommand.Payload cmd) = Inr payloadBytes
        \<and> CreateJobCommand.Queue cmd \<noteq> [] \<and> CreateJobCommand.Type cmd = []
      \<longrightarrow> CreateJob json_Marshal cmd w = (Inl ErrInvalidType, w))
   \<and> (json_Marshal (CreateJobCommand.Payload cmd) = Inl err
      \<longrightarrow> CreateJob json_Marshal cmd w = (Inl err, w))"
  by (auto simp: CreateJob_def NewJob_def split: sum.splits)

theorem CreateJob_validation_witness:
  "CreateJob Inr \<lparr>CreateJobCommand.Queue = [], CreateJobCommand.Type = ''email'',
                  CreateJobCommand.Payload = ''{}''\<rparr> world_a = (Inl ErrInvalidQueue, world_a)
   \<and> CreateJob Inr \<lparr>CreateJobCommand.Queue = ''default'', CreateJobCommand.Type = [],
                  CreateJobCommand.Payload = ''{}''\<rparr> world_a = (Inl ErrInvalidType, world_a)
   \<and> CreateJob (\<lambda>_. Inl (External ''json: unsupported type''))
        \<lparr>CreateJobCommand.Queue = [], CreateJobCommand.Type = ''email'',
         CreateJobCommand.Payload = ''{}''\<rparr> world_a
       = (Inl (External ''json: unsupported type''), world_a)"
  using CreateJob_validation [of "\<lparr>CreateJobCommand.Queue = [], CreateJobCommand.Type = ''email'',
                  CreateJobCommand.Payload = ''{}''\<rparr>" Inr world_a "''{}''"]
    CreateJob_validation [of "\<lparr>CreateJobCommand.Queue = ''default'', CreateJobCommand.Type = [],
                  CreateJobCommand.Payload = ''{}''\<rparr>" Inr world_a "''{}''"]
    CreateJob_validation [of "\<lparr>CreateJobCommand.Queue = [], CreateJobCommand.Type = ''email'',
                  CreateJobCommand.Payload = ''{}''\<rparr>"
      "\<lambda>_. Inl (External ''json: unsupported type'')" world_a "''{}''"
      "External ''json: unsupported type''"]
  by simp

text \<open>
  Claim C6 as stated fails when queue and type are both empty: the type is empty and
  the error is \<^verbatim>\<open>ErrInvalidQueue\<close>, since the queue is checked first.
\<close>

theorem CreateJob_both_empty_counterexample:
  "CreateJobCommand.Type \<lparr>CreateJobCommand.Queue = [], CreateJobCommand.Type = [],
                          CreateJobCommand.Payload = ''{}''\<rparr> = []
   \<and> fst (CreateJob Inr \<lparr>CreateJobCommand.Queue = [], CreateJobCommand.Type = [],
                        CreateJobCommand.Payload = ''{}''\<rparr> world_a) = Inl ErrInvalidQueue
   \<and> fst (CreateJob Inr \<lparr>CreateJobCommand.Queue = [], CreateJobCommand.Type = [],
                        CreateJobCommand.Payload = ''{}''\<rparr> world_a) \<noteq> Inl ErrInvalidType"
  by (simp add: CreateJob_def NewJob_def)

subsection \<open>RetryJob\<close>

text \<open>
  Claim C5. Let the store return the row of a job whose status is failed. If its
  attempts have reached max_attempts, \<^verbatim>\<open>RetryJob\<close> fails with
  \<^verbatim>\<open>ErrMaxAttemptsReached\<close> and leaves the world as it was but for the record of the
  read: no row changes and nothing is pushed. If its attempts are below max_attempts
  (and the store and the channel accept the two writes), \<^verbatim>\<open>RetryJob\<close> succeeds, the
  stored row is the job marked retrying, and the envelope of that job is pushed to the
  job's queue.
\<close>

theorem RetryJob_contract:
  assumes "faults w (length (calls w)) = None"
    and "find (\<lambda>r. ID r = jobID) (jobs w) = Some job"
    and "Status job = StatusFailed"
  shows "(maxAttempts \<le>s Attempts job \<longrightarrow>
            RetryJob jobID maxAttempts w
              = (Some ErrMaxAttemptsReached,
                 w\<lparr>calls := calls w @ [JobRepository_GetByID_call jobID]\<rparr>))
       \<and> (Attempts job <s maxAttempts
            \<and> faults w (Suc (length (calls w))) = None
            \<and> faults w (Suc (Suc (length (calls w)))) = None \<longrightarrow>
            (\<exists>w'. RetryJob jobID maxAttempts w = (None, w')
               \<and> find (\<lambda>r. ID r = jobID) (jobs w')
                   = Some (job\<lparr>Status := StatusRetrying, UpdatedAt := clock w\<rparr>)
               \<and> queues w' (Queue job)
                   = job\<lparr>Status := StatusRetrying, UpdatedAt := clock w\<rparr> # queues w (Queue job)
               \<and> calls w' = calls w @
                   [JobRepository_GetByID_call jobID,
                    JobRepository_Update_call (job\<lparr>Status := StatusRetrying, UpdatedAt := clock w\<rparr>),
                    QueueService_Enqueue_call (job\<lparr>Status := StatusRetrying, UpdatedAt := clock w\<rparr>)]))"
proof -
  from assms(2) have id: "ID job = jobID"
    by (rule find_holds)
  have dlq: "RetryJob jobID maxAttempts w
      = (Some ErrMaxAttemptsReached, w\<lparr>calls := calls w @ [JobRepository_GetByID_call jobID]\<rparr>)"
    if "maxAttempts \<le>s Attempts job"
    using that assms
    by (simp add: RetryJob_def JobRepository_GetByID_def invoke_def CanRetry_def
        word_sless_alt word_sle_eq)
  have retry: "\<exists>w'. RetryJob jobID maxAttempts w = (None, w')
       \<and> find (\<lambda>r. ID r = jobID) (jobs w')
           = Some (job\<lparr>Status := StatusRetrying, UpdatedAt := clock w\<rparr>)
       \<and> queues w' (Queue job)
           = job\<lparr>Status := StatusRetrying, UpdatedAt := clock w\<rparr> # queues w (Queue job)
       \<and> calls w' = calls w @
           [JobRepository_GetByID_call jobID,
            JobRepository_Update_call (job\<lparr>Status := StatusRetrying, UpdatedAt := clock w\<rparr>),
            QueueService_Enqueue_call (job\<lparr>Status := StatusRetrying, UpdatedAt := clock w\<rparr>)]"
    if "Attempts job <s maxAttempts" and "faults w (Suc (length (calls w))) = None"
      and "faults w (Suc (Suc (length (calls w)))) = None"
    using that assms id
    by (simp add: RetryJob_def JobRepository_GetByID_def JobRepository_Update_def
        QueueService_Enqueue_def invoke_def CanRetry_def MarkAsRetrying_def
        RecordJobRetried_def increment_def find_map_same_key Let_def)
  from dlq retry show ?thesis
    by blast
qed

theorem RetryJob_contract_witness:
  "faults (world_a\<lparr>jobs := [job_a\<lparr>Status := StatusFailed, Attempts := 3\<rparr>]\<rparr>)
       (length (calls (world_a\<lparr>jobs := [job_a\<lparr>Status := StatusFailed, Attempts := 3\<rparr>]\<rparr>))) = None
   \<and> find (\<lambda>r. ID r = 1) (jobs (world_a\<lparr>jobs := [job_a\<lparr>Status := StatusFailed, Attempts := 3\<rparr>]\<rparr>))
       = Some (job_a\<lparr>Status := StatusFailed, Attempts := 3\<rparr>)
   \<and> Status (job_a\<lparr>Status := StatusFailed, Attempts := 3\<rparr>) = StatusFailed
   \<and> (3 :: goint) \<le>s Attempts (job_a\<lparr>Status := StatusFailed, Attempts := 3\<rparr>)
   \<and> RetryJob 1 3 (world_a\<lparr>jobs := [job_a\<lparr>Status := StatusFailed, Attempts := 3\<rparr>]\<rparr>)
       = (Some ErrMaxAttemptsReached,
          world_a\<lparr>jobs := [job_a\<lparr>Status := StatusFailed, Attempts := 3\<rparr>],
                  calls := [JobRepository_GetByID_call 1]\<rparr>)
   \<and> Attempts (job_a\<lparr>Status := StatusFailed, Attempts := 1\<rparr>) <s (3 :: goint)
   \<and> (\<exists>w'. RetryJob 1 3 (world_a\<lparr>jobs := [job_a\<lparr>Status := StatusFailed, Attempts := 1\<rparr>]\<rparr>)
            = (None, w')
         \<and> find (\<lambda>r. ID r = 1) (jobs w')
             = Some (job_a\<lparr>Status := StatusRetrying, Attempts := 1, UpdatedAt := 100\<rparr>)
         \<and> queues w' ''default''
             = [job_a\<lparr>Status := StatusRetrying, Attempts := 1, UpdatedAt := 100\<rparr>])"
  using RetryJob_contract [of "world_a\<lparr>jobs := [job_a\<lparr>Status := StatusFailed, Attempts := 3\<rparr>]\<rparr>"
      1 "job_a\<lparr>Status := StatusFailed, Attempts := 3\<rparr>" 3]
    RetryJob_contract [of "world_a\<lparr>jobs := [job_a\<lparr>Status := StatusFailed, Attempts := 1\<rparr>]\<rparr>"
      1 "job_a\<lparr>Status := StatusFailed, Attempts := 1\<rparr>" 3]
  by (auto simp: world_a_def job_a_def word_sle_eq word_sless_alt)

subsection \<open>Failure at the last attempt\<close>

text \<open>
  Claim C1. Let a job fail with an error when the counter after the increment is not
  below max_attempts. Then \<^verbatim>\<open>handleJobFailure\<close> leaves the job failed, with the counter
  incremented and the error set; it pushes nothing to the dispatch channel (no queue
  changes and no \<^verbatim>\<open>Enqueue\<close> is called); it calls \<^verbatim>\<open>MoveToDLQ\<close> with the job's id; when
  that call succeeds it calls \<^verbatim>\<open>Update\<close> with the failed job; and when that call succeeds
  too, the result is nil and the job's row in the store carries the failed state.
\<close>

theorem handleJobFailure_dead_letter:
  assumes "MaxAttempts (config s) \<le>s Attempts job + 1"
  shows "\<exists>r w'. handleJobFailure s job (Some e) w
            = ((r, job\<lparr>Status := StatusFailed, Error := ErrorString e,
                       Attempts := Attempts job + 1, UpdatedAt := clock w\<rparr>), w')
       \<and> queues w' = queues w
       \<and> calls w' = calls w @
           (if faults w (length (calls w)) = None
            then [JobRepository_MoveToDLQ_call (ID job),
                  JobRepository_Update_call
                    (job\<lparr>Status := StatusFailed, Error := ErrorString e,
                         Attempts := Attempts job + 1, UpdatedAt := clock w\<rparr>)]
            else [JobRepository_MoveToDLQ_call (ID job)])
       \<and> (faults w (length (calls w)) = None \<and> faults w (Suc (length (calls w))) = None
            \<longrightarrow> r = None
              \<and> find (\<lambda>row. ID row = ID job) (jobs w')
                  = map_option
                      (\<lambda>row. row\<lparr>Status := StatusFailed, Attempts := Attempts job + 1,
                                  Payload := Payload job, ScheduledFor := ScheduledFor job,
                                  UpdatedAt := clock w, Error := ErrorString e\<rparr>)
                      (find (\<lambda>row. ID row = ID job) (jobs w)))"
proof -
  let ?job1 = "job\<lparr>Status := StatusFailed, Error := ErrorString e,
                    Attempts := Attempts job + 1, UpdatedAt := clock w\<rparr>"
  from assms have no_retry: "\<not> CanRetry ?job1 (MaxAttempts (config s))"
    by (simp add: CanRetry_def word_sless_alt word_sle_eq)
  show ?thesis
  proof (cases "faults w (length (calls w))")
    case (Some err)
    with no_retry show ?thesis
      by (simp add: handleJobFailure_def MarkAsFailed_def Let_def JobRepository_MoveToDLQ_def
          invoke_def)
  next
    case None
    show ?thesis
    proof (cases "faults w (Suc (length (calls w)))")
      case (Some err)
      with None no_retry show ?thesis
        by (simp add: handleJobFailure_def MarkAsFailed_def Let_def JobRepository_MoveToDLQ_def
            JobRepository_Update_def invoke_def)
    next
      case n2: None
      with None no_retry show ?thesis
        by (simp add: handleJobFailure_def MarkAsFailed_def Let_def JobRepository_MoveToDLQ_def
            JobRepository_Update_def invoke_def find_map_row option.map_comp comp_def
            del: map_map cong: if_cong)
    qed
  qed
qed

theorem handleJobFailure_dead_letter_witness:
  "MaxAttempts (config service_a) \<le>s Attempts (job_a\<lparr>Attempts := 2\<rparr>) + 1
   \<and> (\<exists>r w'. handleJobFailure service_a (job_a\<lparr>Attempts := 2\<rparr>)
                  (Some (External ''smtp: connection refused'')) world_a
            = ((r, job_a\<lparr>Status := StatusFailed, Error := ''smtp: connection refused'',
                         Attempts := 3, UpdatedAt := 100\<rparr>), w')
       \<and> queues w' = queues world_a
       \<and> calls w' = [JobRepository_MoveToDLQ_call 1,
                     JobRepository_Update_call
                       (job_a\<lparr>Status := StatusFailed, Error := ''smtp: connection refused'',
                              Attempts := 3, UpdatedAt := 100\<rparr>)]
       \<and> r = None
       \<and> find (\<lambda>row. ID row = 1) (jobs w')
           = Some (job_a\<lparr>Status := StatusFailed, Error := ''smtp: connection refused'',
                         Attempts := 3, UpdatedAt := 100\<rparr>))"
  using handleJobFailure_dead_letter [of service_a "job_a\<lparr>Attempts := 2\<rparr>"
      "External ''smtp: connection refused''" world_a]
  by (simp add: service_a_def config_a_def job_a_def world_a_def word_sle_eq)

subsection \<open>The analysis hook\<close>

text \<open>
  Claim C3, as amended. For every job that fails with an error, \<^verbatim>\<open>handleJobFailure\<close>
  starts the detached analysis of the job exactly when the service has an insights
  service and the counter after the increment is 1; in every other case, whether the
  job is retried or moved to the dead-letter view and whatever the stores answer, it
  starts none.
\<close>

theorem handleJobFailure_analysis_spawn:
  "goroutines (snd (handleJobFailure s job (Some e) w)) =
     (if insightsService s \<and> Attempts job + 1 = 1 then goroutines w @ [ID job] else goroutines w)"
  by (simp add: handleJobFailure_def MarkAsFailed_def Let_def case_prod_beta port_simps
      time_Sleep_def MarkAsRetrying_def Schedule_def split: option.splits)

theorem handleJobFailure_analysis_spawn_witness:
  "goroutines (snd (handleJobFailure service_a job_a
                      (Some (External ''smtp: connection refused'')) world_a)) = [1]
   \<and> goroutines (snd (handleJobFailure service_a (job_a\<lparr>Attempts := 1\<rparr>)
                      (Some (External ''smtp: connection refused'')) world_a)) = []
   \<and> goroutines (snd (handleJobFailure service_a (job_a\<lparr>Attempts := 2\<rparr>)
                      (Some (External ''smtp: connection refused'')) world_a)) = []"
  using handleJobFailure_analysis_spawn [of service_a job_a
      "External ''smtp: connection refused''" world_a]
    handleJobFailure_analysis_spawn [of service_a "job_a\<lparr>Attempts := 1\<rparr>"
      "External ''smtp: connection refused''" world_a]
    handleJobFailure_analysis_spawn [of service_a "job_a\<lparr>Attempts := 2\<rparr>"
      "External ''smtp: connection refused''" world_a]
  by (simp add: service_a_def job_a_def world_a_def)

text \<open>
  Claim C3 as stated fails for a worker service built without an insights service (a
  nil pointer, as in every test of the package): the first failure of a job makes the
  counter 1 and starts no analysis.
\<close>

theorem handleJobFailure_nil_insights_counterexample:
  "Attempts (snd (fst (handleJobFailure (service_a\<lparr>insightsService := False\<rparr>) job_a
                         (Some (External ''smtp: connection refused'')) world_a))) = 1
   \<and> goroutines (snd (handleJobFailure (service_a\<lparr>insightsService := False\<rparr>) job_a
                         (Some (External ''smtp: connection refused'')) world_a)) = []"
  by (simp add: handleJobFailure_def MarkAsFailed_def Let_def case_prod_beta port_simps
      time_Sleep_def MarkAsRetrying_def Schedule_def service_a_def config_a_def job_a_def
      world_a_def split: option.splits)

subsection \<open>GetMetrics\<close>

lemma GetMetrics_Inr:
  assumes "GetMetrics w = (Inr m, w')"
  shows "m = [StatusPending \<mapsto> of_nat (length (filter (\<lambda>r. Status r = StatusPending) (jobs w))),
              StatusProcessing \<mapsto> of_nat (length (filter (\<lambda>r. Status r = StatusProcessing) (jobs w))),
              StatusCompleted \<mapsto> of_nat (length (filter (\<lambda>r. Status r = StatusCompleted) (jobs w))),
              StatusFailed \<mapsto> of_nat (length (filter (\<lambda>r. Status r = StatusFailed) (jobs w))),
              ''dlq'' \<mapsto> of_nat (length (filter (\<lambda>r. Status r = StatusFailed \<and> 3 \<le>s Attempts r) (jobs w)))]"
  using assms
  by (simp add: GetMetrics_def JobRepository_CountByStatus_def JobRepository_CountDLQJobs_def
      invoke_def split: option.splits sum.splits prod.splits)

lemma GetMetrics_total:
  assumes "\<forall>i<5. faults w (length (calls w) + i) = None"
  shows "\<exists>m w'. GetMetrics w = (Inr m, w')"
proof -
  from assms have "faults w (length (calls w)) = None"
    "faults w (Suc (length (calls w))) = None"
    "faults w (Suc (Suc (length (calls w)))) = None"
    "faults w (Suc (Suc (Suc (length (calls w))))) = None"
    "faults w (Suc (Suc (Suc (Suc (length (calls w)))))) = None"
    using assms [rule_format, of 0] assms [rule_format, of 1] assms [rule_format, of 2]
      assms [rule_format, of 3] assms [rule_format, of 4]
    by (simp_all add: eval_nat_numeral)
  then show ?thesis
    by (simp add: GetMetrics_def JobRepository_CountByStatus_def JobRepository_CountDLQJobs_def
        invoke_def)
qed

text \<open>
  Claim C8, as amended. The map that \<^verbatim>\<open>GetMetrics\<close> returns has exactly five keys: the
  statuses pending, processing, completed and failed, each with the number of stored
  jobs in that status, and \<^verbatim>\<open>"dlq"\<close> with the number of failed jobs with three or more
  attempts. It has no entry for the status retrying. \<^verbatim>\<open>GetMetrics\<close> returns a map
  whenever the store answers its five counting queries.
\<close>

theorem GetMetrics_keys:
  "(GetMetrics w = (Inr m, w') \<longrightarrow>
      dom m = {StatusPending, StatusProcessing, StatusCompleted, StatusFailed, ''dlq''}
      \<and> m StatusRetrying = None
      \<and> m StatusPending = Some (of_nat (length (filter (\<lambda>r. Status r = StatusPending) (jobs w))))
      \<and> m StatusProcessing = Some (of_nat (length (filter (\<lambda>r. Status r = StatusProcessing) (jobs w))))
      \<and> m StatusCompleted = Some (of_nat (length (filter (\<lambda>r. Status r = StatusCompleted) (jobs w))))
      \<and> m StatusFailed = Some (of_nat (length (filter (\<lambda>r. Status r = StatusFailed) (jobs w))))
      \<and> m ''dlq'' = Some (of_nat (length (filter (\<lambda>r. Status r = StatusFailed \<and> 3 \<le>s Attempts r) (jobs w)))))
   \<and> ((\<forall>i<5. faults w (length (calls w) + i) = None) \<longrightarrow> (\<exists>m w'. GetMetrics w = (Inr m, w')))"
proof (intro conjI impI)
  assume "\<forall>i<5. faults w (length (calls w) + i) = None"
  then show "\<exists>m w'. GetMetrics w = (Inr m, w')"
    by (rule GetMetrics_total)
next
  assume a: "GetMetrics w = (Inr m, w')"
  note m = GetMetrics_Inr [OF a]
  show "dom m = {StatusPending, StatusProcessing, StatusCompleted, StatusFailed, ''dlq''}"
    by (subst m) auto
  show "m StatusRetrying = None"
    by (subst m) (simp add: StatusPending_def StatusProcessing_def StatusCompleted_def
        StatusFailed_def StatusRetrying_def)
  show "m StatusPending = Some (of_nat (length (filter (\<lambda>r. Status r = StatusPending) (jobs w))))"
    by (subst m) (simp add: StatusPending_def StatusProcessing_def StatusCompleted_def
        StatusFailed_def StatusRetrying_def)
  show "m StatusProcessing = Some (of_nat (length (filter (\<lambda>r. Status r = StatusProcessing) (jobs w))))"
    by (subst m) (simp add: StatusPending_def StatusProcessing_def StatusCompleted_def
        StatusFailed_def StatusRetrying_def)
  show "m StatusCompleted = Some (of_nat (length (filter (\<lambda>r. Status r = StatusCompleted) (jobs w))))"
    by (subst m) (simp add: StatusPending_def StatusProcessing_def StatusCompleted_def
        StatusFailed_def StatusRetrying_def)
  show "m StatusFailed = Some (of_nat (length (filter (\<lambda>r. Status r = StatusFailed) (jobs w))))"
    by (subst m) (simp add: StatusPending_def StatusProcessing_def StatusCompleted_def
        StatusFailed_def StatusRetrying_def)
  show "m ''dlq'' = Some (of_nat (length (filter (\<lambda>r. Status r = StatusFailed \<and> 3 \<le>s Attempts r) (jobs w))))"
    by (subst m) simp
qed

theorem GetMetrics_keys_witness:
  "(\<forall>i<5. faults (world_a\<lparr>jobs := [job_a\<lparr>Status := StatusRetrying\<rparr>]\<rparr>)
            (length (calls (world_a\<lparr>jobs := [job_a\<lparr>Status := StatusRetrying\<rparr>]\<rparr>)) + i) = None)
     = True
   \<and> (\<exists>m w'. GetMetrics (world_a\<lparr>jobs := [job_a\<lparr>Status := StatusRetrying\<rparr>]\<rparr>) = (Inr m, w')
         \<and> dom m = {StatusPending, StatusProcessing, StatusCompleted, StatusFailed, ''dlq''}
         \<and> m StatusRetrying = None \<and> m StatusPending = Some 0 \<and> m ''dlq'' = Some 0)"
proof -
  let ?w = "world_a\<lparr>jobs := [job_a\<lparr>Status := StatusRetrying\<rparr>]\<rparr>"
  have up: "\<forall>i<5. faults ?w (length (calls ?w) + i) = None"
    by (simp add: world_a_def)
  then obtain m w' where run: "GetMetrics ?w = (Inr m, w')"
    using GetMetrics_keys [of ?w] by blast
  from GetMetrics_keys [of ?w m w'] run
  have "dom m = {StatusPending, StatusProcessing, StatusCompleted, StatusFailed, ''dlq''}"
    and "m StatusRetrying = None" and "m StatusPending = Some 0" and "m ''dlq'' = Some 0"
    by (simp_all add: world_a_def job_a_def StatusPending_def StatusFailed_def StatusRetrying_def)
  with run show ?thesis
    by (auto simp: world_a_def)
qed

text \<open>
  Claim C8 as stated fails: with one stored job in status retrying, the returned map
  has no count under \<^verbatim>\<open>"retrying"\<close>.
\<close>

theorem GetMetrics_retrying_counterexample:
  "\<not> isl (fst (GetMetrics (world_a\<lparr>jobs := [job_a\<lparr>Status := StatusRetrying\<rparr>]\<rparr>)))
   \<and> projr (fst (GetMetrics (world_a\<lparr>jobs := [job_a\<lparr>Status := StatusRetrying\<rparr>]\<rparr>))) StatusRetrying = None"
  by (simp add: GetMetrics_def JobRepository_CountByStatus_def JobRepository_CountDLQJobs_def
      invoke_def world_a_def job_a_def StatusPending_def StatusProcessing_def StatusCompleted_def
        StatusFailed_def StatusRetrying_def)

subsection \<open>The insight cache\<close>

lemma newest_None_iff: "newest xs = None \<longleftrightarrow> xs = []"
  by (induction xs) (auto split: option.splits)

lemma AnalyzeJobFailure_cached:
  assumes "faults w (length (calls w)) = None"
    and "newest (filter (\<lambda>r. JobID r = jobID) (insights w)) = Some i"
  shows "AnalyzeJobFailure jobID w
           = (Inr i, w\<lparr>calls := calls w @ [InsightRepository_GetByJobID_call jobID]\<rparr>)"
  using assms by (simp add: AnalyzeJobFailure_def InsightRepository_GetByJobID_def invoke_def)

lemma AnalyzeJobFailure_Inr_cases:
  assumes "AnalyzeJobFailure jobID w = (Inr i, w1)"
    and "faults w (length (calls w)) = None"
  shows "(newest (filter (\<lambda>r. JobID r = jobID) (insights w)) = Some i
            \<and> w1 = w\<lparr>calls := calls w @ [InsightRepository_GetByJobID_call jobID]\<rparr>)
       \<or> (filter (\<lambda>r. JobID r = jobID) (insights w) = []
            \<and> insights w1 = insights w @ [i] \<and> JobID i = jobID
            \<and> analyzer_invocations w1 = Suc (analyzer_invocations w))"
proof (cases "newest (filter (\<lambda>r. JobID r = jobID) (insights w))")
  case (Some i0)
  with assms show ?thesis
    by (simp add: AnalyzeJobFailure_cached)
next
  case None
  then have empty: "filter (\<lambda>r. JobID r = jobID) (insights w) = []"
    by (simp add: newest_None_iff)
  from assms None have "insights w1 = insights w @ [i] \<and> JobID i = jobID
      \<and> analyzer_invocations w1 = Suc (analyzer_invocations w)"
    by (auto simp: AnalyzeJobFailure_def InsightRepository_GetByJobID_def JobRepository_GetByID_def
        AIService_Analyze_def NewInsight_def InsightRepository_Create_def invoke_def
        uuid_New_def Let_def analyzer_invocations_def
        split: option.splits sum.splits prod.splits if_splits)
  with empty show ?thesis
    by simp
qed

lemma newest_in_set: "newest xs = Some x \<Longrightarrow> x \<in> set xs"
  by (induction xs arbitrary: x) (auto split: option.splits if_splits)

text \<open>
  Claim C4, as amended. Let the store answer the lookup of the insight. When an insight
  for the job is stored, \<^verbatim>\<open>AnalyzeJobFailure\<close> returns a stored insight of that job and does nothing
  but the lookup: the analyzer is not invoked and no row is written. Hence, when a call
  returns an insight and the store answers the lookup of a second call for the same
  job, the second call returns the same insight and writes nothing, and the two calls
  together invoke the analyzer at most once.
\<close>

theorem AnalyzeJobFailure_idempotent:
  assumes "faults w (length (calls w)) = None"
  shows "((\<exists>r \<in> set (insights w). JobID r = jobID) \<longrightarrow>
            (\<exists>i \<in> set (insights w). JobID i = jobID
               \<and> AnalyzeJobFailure jobID w
                   = (Inr i, w\<lparr>calls := calls w @ [InsightRepository_GetByJobID_call jobID]\<rparr>)))
       \<and> (AnalyzeJobFailure jobID w = (Inr i1, w1) \<and> faults w1 (length (calls w1)) = None \<longrightarrow>
            (\<exists>w2. AnalyzeJobFailure jobID w1 = (Inr i1, w2)
               \<and> insights w2 = insights w1
               \<and> analyzer_invocations w2 \<le> Suc (analyzer_invocations w)))"
proof (intro conjI impI)
  assume "\<exists>r \<in> set (insights w). JobID r = jobID"
  then have "filter (\<lambda>r. JobID r = jobID) (insights w) \<noteq> []"
    by (auto simp: filter_empty_conv)
  then obtain i where newest: "newest (filter (\<lambda>r. JobID r = jobID) (insights w)) = Some i"
    by (cases "newest (filter (\<lambda>r. JobID r = jobID) (insights w))")
      (auto simp: newest_None_iff)
  then have "i \<in> set (filter (\<lambda>r. JobID r = jobID) (insights w))"
    by (rule newest_in_set)
  with AnalyzeJobFailure_cached [OF assms newest]
  show "\<exists>i \<in> set (insights w). JobID i = jobID
      \<and> AnalyzeJobFailure jobID w
          = (Inr i, w\<lparr>calls := calls w @ [InsightRepository_GetByJobID_call jobID]\<rparr>)"
    by auto
next
  assume a: "AnalyzeJobFailure jobID w = (Inr i1, w1) \<and> faults w1 (length (calls w1)) = None"
  then have first: "AnalyzeJobFailure jobID w = (Inr i1, w1)"
    and up: "faults w1 (length (calls w1)) = None"
    by simp_all
  from AnalyzeJobFailure_Inr_cases [OF first assms]
  have stored: "newest (filter (\<lambda>r. JobID r = jobID) (insights w1)) = Some i1"
    and count: "analyzer_invocations w1 \<le> Suc (analyzer_invocations w)"
    by (auto simp: analyzer_invocations_def)
  from AnalyzeJobFailure_cached [OF up stored] count
  show "\<exists>w2. AnalyzeJobFailure jobID w1 = (Inr i1, w2)
      \<and> insights w2 = insights w1
      \<and> analyzer_invocations w2 \<le> Suc (analyzer_invocations w)"
    by (simp add: analyzer_invocations_def)
qed

lemma AnalyzeJobFailure_world_a:
  "AnalyzeJobFailure 1 world_a
     = (Inr insight_a,
        world_a\<lparr>insights := [insight_a], next_uuid := 3,
                calls := [InsightRepository_GetByJobID_call 1, JobRepository_GetByID_call 1,
                          AIService_Analyze_call
                            \<lparr>AnalysisRequest.JobID = 1, AnalysisRequest.Error = [],
                             AnalysisRequest.Payload = ''{}''\<rparr>,
                          InsightRepository_Create_call insight_a]\<rparr>)"
  by (simp add: AnalyzeJobFailure_def InsightRepository_GetByJobID_def JobRepository_GetByID_def
      AIService_Analyze_def NewInsight_def InsightRepository_Create_def invoke_def
      uuid_New_def uuid_Nil_def Let_def world_a_def job_a_def response_a_def insight_a_def)

theorem AnalyzeJobFailure_idempotent_witness:
  "faults world_a (length (calls world_a)) = None
   \<and> fst (AnalyzeJobFailure 1 world_a) = Inr insight_a
   \<and> faults (snd (AnalyzeJobFailure 1 world_a))
        (length (calls (snd (AnalyzeJobFailure 1 world_a)))) = None
   \<and> (\<exists>w2. AnalyzeJobFailure 1 (snd (AnalyzeJobFailure 1 world_a)) = (Inr insight_a, w2)
         \<and> insights w2 = [insight_a]
         \<and> analyzer_invocations w2 \<le> Suc (analyzer_invocations world_a))"
  using AnalyzeJobFailure_idempotent [of world_a 1 insight_a "snd (AnalyzeJobFailure 1 world_a)"]
  unfolding AnalyzeJobFailure_world_a
  by (simp add: world_a_def)

lemma AnalyzeJobFailure_world_b:
  "AnalyzeJobFailure 1 world_b
     = (Inr insight_a,
        world_b\<lparr>insights := [insight_a], next_uuid := 3,
                calls := [InsightRepository_GetByJobID_call 1, JobRepository_GetByID_call 1,
                          AIService_Analyze_call
                            \<lparr>AnalysisRequest.JobID = 1, AnalysisRequest.Error = [],
                             AnalysisRequest.Payload = ''{}''\<rparr>,
                          InsightRepository_Create_call insight_a]\<rparr>)"
  by (simp add: AnalyzeJobFailure_def InsightRepository_GetByJobID_def JobRepository_GetByID_def
      AIService_Analyze_def NewInsight_def InsightRepository_Create_def invoke_def
      uuid_New_def uuid_Nil_def Let_def world_b_def world_a_def job_a_def response_a_def
      insight_a_def)

text \<open>
  Claim C4 as stated fails when the lookup fails: \<^verbatim>\<open>AnalyzeJobFailure\<close> takes every error
  of \<^verbatim>\<open>GetByJobID\<close> for a missing row. In \<open>world_b\<close> a first call stores and returns
  the insight with id 2. The lookup of the second call fails, so with that insight
  stored the second call invokes the analyzer again, stores a second row for the same
  job and returns it, with id 3 and no error: two calls, two insights, two invocations
  of the analyzer.
\<close>

theorem AnalyzeJobFailure_lookup_error_counterexample:
  "analyzer_invocations world_b = 0
   \<and> fst (AnalyzeJobFailure 1 world_b) = Inr insight_a
   \<and> insights (snd (AnalyzeJobFailure 1 world_b)) = [insight_a]
   \<and> JobID insight_a = 1
   \<and> fst (AnalyzeJobFailure 1 (snd (AnalyzeJobFailure 1 world_b)))
       = Inr (insight_a\<lparr>Insight.ID := 3\<rparr>)
   \<and> insights (snd (AnalyzeJobFailure 1 (snd (AnalyzeJobFailure 1 world_b))))
       = [insight_a, insight_a\<lparr>Insight.ID := 3\<rparr>]
   \<and> analyzer_invocations (snd (AnalyzeJobFailure 1 (snd (AnalyzeJobFailure 1 world_b)))) = 2"
  unfolding AnalyzeJobFailure_world_b
  by (simp add: AnalyzeJobFailure_def InsightRepository_GetByJobID_def JobRepository_GetByID_def
      AIService_Analyze_def NewInsight_def InsightRepository_Create_def invoke_def
      uuid_New_def uuid_Nil_def Let_def world_b_def world_a_def job_a_def response_a_def
      insight_a_def analyzer_invocations_def)

subsection \<open>Applying a suggested fix\<close>

lemma ApplyInsightFix_empty_patch:
  assumes "find (\<lambda>r. Insight.ID r = insightID) (insights w) = Some i"
    and "PayloadPatch (SuggestedFix i) = Map.empty"
  shows "map_option Payload
           (find (\<lambda>r. ID r = uid) (jobs (snd (ApplyInsightFix json_Unmarshal json_Marshal insightID w))))
         = map_option Payload (find (\<lambda>r. ID r = uid) (jobs w))"
  using assms
  by (cases "find (\<lambda>r. ID r = uid) (jobs w)")
     (auto simp: ApplyInsightFix_def case_prod_beta Let_def port_simps MarkAsRetrying_def
      find_map_same_key
      split: option.splits sum.splits dest: find_ID_unique)

lemma ApplyInsightFix_patched:
  assumes "faults w (length (calls w)) = None"
    and "faults w (Suc (length (calls w))) = None"
    and "faults w (Suc (Suc (length (calls w)))) = None"
    and "find (\<lambda>r. Insight.ID r = insightID) (insights w) = Some i"
    and "find (\<lambda>r. ID r = JobID i) (jobs w) = Some job"
    and "ApplySuggestedFix json_Unmarshal json_Marshal i (Payload job) = Inr patched"
  shows "fst (ApplyInsightFix json_Unmarshal json_Marshal insightID w) = None
       \<and> map_option Payload
           (find (\<lambda>r. ID r = JobID i) (jobs (snd (ApplyInsightFix json_Unmarshal json_Marshal insightID w))))
         = Some patched"
proof -
  from assms(5) have id: "ID job = JobID i"
    by (rule find_holds)
  show ?thesis
  proof (cases "PayloadPatch (SuggestedFix i) = Map.empty")
    case True
    with assms(6) have "patched = Payload job"
      by (simp add: ApplySuggestedFix_def)
    with True assms id show ?thesis
      by (simp add: ApplyInsightFix_def case_prod_beta Let_def port_simps MarkAsRetrying_def
          find_map_row)
  next
    case False
    with assms id show ?thesis
      by (simp add: ApplyInsightFix_def case_prod_beta Let_def port_simps MarkAsRetrying_def
          find_map_row)
  qed
qed

text \<open>
  Claim C9. With an empty patch \<^verbatim>\<open>ApplySuggestedFix\<close> returns the payload it was given,
  byte for byte. With a patch that has a value for a key of the decoded payload, a
  returned payload is the encoding of a map that holds the patch's value at that key and
  is the shallow overlay of the patch on the payload (the patch's entry where it has
  one, the payload's entry elsewhere); when decoding inverts encoding on the result, the
  decoded result holds the patch's value at the key. In the service, \<^verbatim>\<open>ApplyInsightFix\<close>
  with an insight whose patch is empty leaves the stored payload of every job as it is,
  and with an insight whose fix applies to the job's payload it stores the patched
  payload (when the store answers the two reads and accepts the write).
\<close>

theorem ApplySuggestedFix_overlay:
  "(PayloadPatch (SuggestedFix i) = Map.empty \<longrightarrow>
      ApplySuggestedFix json_Unmarshal json_Marshal i originalPayload = Inr originalPayload)
   \<and> (json_Unmarshal originalPayload = Inr (Some payload)
        \<and> key \<in> dom payload \<and> PayloadPatch (SuggestedFix i) key = Some v
        \<and> ApplySuggestedFix json_Unmarshal json_Marshal i originalPayload = Inr patched \<longrightarrow>
      (\<exists>m. json_Marshal m = Inr patched \<and> m key = Some v
          \<and> (\<forall>k. m k = (case PayloadPatch (SuggestedFix i) k of
                            Some x \<Rightarrow> Some x | None \<Rightarrow> payload k)))
      \<and> ((\<forall>m. json_Marshal m = Inr patched \<longrightarrow> json_Unmarshal patched = Inr (Some m)) \<longrightarrow>
           (\<exists>m. json_Unmarshal patched = Inr (Some m) \<and> m key = Some v)))
   \<and> (find (\<lambda>r. Insight.ID r = insightID) (insights w) = Some i
        \<and> PayloadPatch (SuggestedFix i) = Map.empty \<longrightarrow>
      (\<forall>uid. map_option Payload
                (find (\<lambda>r. ID r = uid)
                   (jobs (snd (ApplyInsightFix json_Unmarshal json_Marshal insightID w))))
              = map_option Payload (find (\<lambda>r. ID r = uid) (jobs w))))
   \<and> (faults w (length (calls w)) = None \<and> faults w (Suc (length (calls w))) = None
        \<and> faults w (Suc (Suc (length (calls w)))) = None
        \<and> find (\<lambda>r. Insight.ID r = insightID) (insights w) = Some i
        \<and> find (\<lambda>r. ID r = JobID i) (jobs w) = Some job
        \<and> ApplySuggestedFix json_Unmarshal json_Marshal i (Payload job) = Inr patched \<longrightarrow>
      fst (ApplyInsightFix json_Unmarshal json_Marshal insightID w) = None
      \<and> map_option Payload
           (find (\<lambda>r. ID r = JobID i)
              (jobs (snd (ApplyInsightFix json_Unmarshal json_Marshal insightID w))))
         = Some patched)"
proof (intro conjI impI allI)
  assume "PayloadPatch (SuggestedFix i) = Map.empty"
  then show "ApplySuggestedFix json_Unmarshal json_Marshal i originalPayload = Inr originalPayload"
    by (simp add: ApplySuggestedFix_def)
next
  fix uid
  assume "find (\<lambda>r. Insight.ID r = insightID) (insights w) = Some i
      \<and> PayloadPatch (SuggestedFix i) = Map.empty"
  then show "map_option Payload
        (find (\<lambda>r. ID r = uid)
           (jobs (snd (ApplyInsightFix json_Unmarshal json_Marshal insightID w))))
      = map_option Payload (find (\<lambda>r. ID r = uid) (jobs w))"
    by (simp add: ApplyInsightFix_empty_patch)
next
  assume service: "faults w (length (calls w)) = None \<and> faults w (Suc (length (calls w))) = None
      \<and> faults w (Suc (Suc (length (calls w)))) = None
      \<and> find (\<lambda>r. Insight.ID r = insightID) (insights w) = Some i
      \<and> find (\<lambda>r. ID r = JobID i) (jobs w) = Some job
      \<and> ApplySuggestedFix json_Unmarshal json_Marshal i (Payload job) = Inr patched"
  then have stored: "fst (ApplyInsightFix json_Unmarshal json_Marshal insightID w) = None
      \<and> map_option Payload
           (find (\<lambda>r. ID r = JobID i)
              (jobs (snd (ApplyInsightFix json_Unmarshal json_Marshal insightID w))))
         = Some patched"
    by (intro ApplyInsightFix_patched [where job = job]) simp_all
  from stored show "fst (ApplyInsightFix json_Unmarshal json_Marshal insightID w) = None"
    by simp
  from stored show "map_option Payload
        (find (\<lambda>r. ID r = JobID i)
           (jobs (snd (ApplyInsightFix json_Unmarshal json_Marshal insightID w))))
      = Some patched"
    by simp
next
  assume a: "json_Unmarshal originalPayload = Inr (Some payload)
      \<and> key \<in> dom payload \<and> PayloadPatch (SuggestedFix i) key = Some v
      \<and> ApplySuggestedFix json_Unmarshal json_Marshal i originalPayload = Inr patched"
  then have decoded: "json_Unmarshal originalPayload = Inr (Some payload)"
    and at_patch: "PayloadPatch (SuggestedFix i) key = Some v"
    and result: "ApplySuggestedFix json_Unmarshal json_Marshal i originalPayload = Inr patched"
    by simp_all
  have nonempty: "PayloadPatch (SuggestedFix i) \<noteq> Map.empty"
  proof
    assume "PayloadPatch (SuggestedFix i) = Map.empty"
    then have "PayloadPatch (SuggestedFix i) key = None" by simp
    with at_patch show False by simp
  qed
  from result have enc: "json_Marshal (payload ++ PayloadPatch (SuggestedFix i)) = Inr patched"
    by (simp add: ApplySuggestedFix_def nonempty decoded)
  have at_key: "(payload ++ PayloadPatch (SuggestedFix i)) key = Some v"
    using at_patch by (simp add: map_add_Some_iff)
  have overlay: "\<forall>k. (payload ++ PayloadPatch (SuggestedFix i)) k
      = (case PayloadPatch (SuggestedFix i) k of Some x \<Rightarrow> Some x | None \<Rightarrow> payload k)"
    by (simp add: map_add_def split: option.splits)
  from enc at_key overlay
  show "\<exists>m. json_Marshal m = Inr patched \<and> m key = Some v
      \<and> (\<forall>k. m k = (case PayloadPatch (SuggestedFix i) k of
                        Some x \<Rightarrow> Some x | None \<Rightarrow> payload k))"
    by (intro exI [of _ "payload ++ PayloadPatch (SuggestedFix i)"] conjI) assumption+
  assume "\<forall>m. json_Marshal m = Inr patched \<longrightarrow> json_Unmarshal patched = Inr (Some m)"
  with enc have "json_Unmarshal patched = Inr (Some (payload ++ PayloadPatch (SuggestedFix i)))"
    by simp
  with at_key show "\<exists>m. json_Unmarshal patched = Inr (Some m) \<and> m key = Some v"
    by (intro exI [of _ "payload ++ PayloadPatch (SuggestedFix i)"] conjI) assumption+
qed

lemma patch_differs: "[''retries'' \<mapsto> JNumber 5] \<noteq> [''retries'' \<mapsto> JNumber 1]"
proof
  assume "[''retries'' \<mapsto> JNumber 5] = [''retries'' \<mapsto> JNumber 1]"
  then have "JNumber 5 = JNumber 1" by (rule map_upd_eqD1)
  then show False by simp
qed

lemma merged_a: "[''retries'' \<mapsto> JNumber 1] ++ [''retries'' \<mapsto> JNumber 5] = [''retries'' \<mapsto> JNumber 5]"
  by (rule ext) (simp add: map_add_def)

lemma roundtrip_a:
  "\<forall>m. marshal_a m = Inr ''{retries:5}'' \<longrightarrow> unmarshal_a ''{retries:5}'' = Inr (Some m)"
  by (simp add: marshal_a_def unmarshal_a_def)

lemma patched_a:
  "ApplySuggestedFix unmarshal_a marshal_a
        (insight_a\<lparr>SuggestedFix := \<lparr>TimeoutSeconds = 30, MaxRetries = 0,
                                     PayloadPatch = [''retries'' \<mapsto> JNumber 5]\<rparr>\<rparr>)
        ''{retries:1}'' = Inr ''{retries:5}''"
  by (simp add: insight_a_def unmarshal_a_def marshal_a_def ApplySuggestedFix_def patch_differs
      merged_a)

theorem ApplySuggestedFix_overlay_witness:
  "ApplySuggestedFix unmarshal_a marshal_a insight_a ''{retries:1}'' = Inr ''{retries:1}''
   \<and> unmarshal_a ''{retries:1}'' = Inr (Some [''retries'' \<mapsto> JNumber 1])
   \<and> ''retries'' \<in> dom [''retries'' \<mapsto> JNumber 1]
   \<and> ApplySuggestedFix unmarshal_a marshal_a
        (insight_a\<lparr>SuggestedFix := \<lparr>TimeoutSeconds = 30, MaxRetries = 0,
                                     PayloadPatch = [''retries'' \<mapsto> JNumber 5]\<rparr>\<rparr>)
        ''{retries:1}'' = Inr ''{retries:5}''
   \<and> (\<exists>m. marshal_a m = Inr ''{retries:5}'' \<and> m ''retries'' = Some (JNumber 5))
   \<and> (\<exists>m. unmarshal_a ''{retries:5}'' = Inr (Some m) \<and> m ''retries'' = Some (JNumber 5))
   \<and> map_option Payload
        (find (\<lambda>r. ID r = 1)
           (jobs (snd (ApplyInsightFix unmarshal_a marshal_a 2
                         (world_a\<lparr>jobs := [job_a\<lparr>Payload := ''{retries:1}''\<rparr>],
                                  insights :=
                                    [insight_a\<lparr>SuggestedFix :=
                                       \<lparr>TimeoutSeconds = 30, MaxRetries = 0,
                                        PayloadPatch = [''retries'' \<mapsto> JNumber 5]\<rparr>\<rparr>]\<rparr>)))))
       = Some ''{retries:5}''"
proof -
  let ?i = "insight_a\<lparr>SuggestedFix := \<lparr>TimeoutSeconds = 30, MaxRetries = 0,
                                         PayloadPatch = [''retries'' \<mapsto> JNumber 5]\<rparr>\<rparr>"
  let ?job = "job_a\<lparr>Payload := ''{retries:1}''\<rparr>"
  let ?w = "world_a\<lparr>jobs := [?job], insights := [?i]\<rparr>"
  have empty_patch: "PayloadPatch (SuggestedFix insight_a) = Map.empty"
    by (simp add: insight_a_def)
  have decoded: "unmarshal_a ''{retries:1}'' = Inr (Some [''retries'' \<mapsto> JNumber 1])"
    by (simp add: unmarshal_a_def)
  have at_patch: "PayloadPatch (SuggestedFix ?i) ''retries'' = Some (JNumber 5)"
    by simp
  have in_payload: "''retries'' \<in> dom [''retries'' \<mapsto> JNumber 1]"
    by simp
  have up: "faults ?w (length (calls ?w)) = None" "faults ?w (Suc (length (calls ?w))) = None"
    "faults ?w (Suc (Suc (length (calls ?w)))) = None"
    by (simp_all add: world_a_def)
  have the_insight: "find (\<lambda>r. Insight.ID r = 2) (insights ?w) = Some ?i"
    by (simp add: world_a_def insight_a_def)
  have the_job: "find (\<lambda>r. ID r = JobID ?i) (jobs ?w) = Some ?job"
    by (simp add: world_a_def insight_a_def job_a_def)
  have patched_job: "ApplySuggestedFix unmarshal_a marshal_a ?i (Payload ?job) = Inr ''{retries:5}''"
    using patched_a by simp
  have job_id: "JobID ?i = 1"
    by (simp add: insight_a_def)
  from ApplySuggestedFix_overlay [of insight_a unmarshal_a marshal_a "''{retries:1}''"
      "[''retries'' \<mapsto> JNumber 1]" "''retries''" "JNumber 5" "''{retries:1}''" 2 ?w ?job]
    empty_patch
  have unchanged: "ApplySuggestedFix unmarshal_a marshal_a insight_a ''{retries:1}''
      = Inr ''{retries:1}''"
    by blast
  from ApplySuggestedFix_overlay [of ?i unmarshal_a marshal_a "''{retries:1}''"
      "[''retries'' \<mapsto> JNumber 1]" "''retries''" "JNumber 5" "''{retries:5}''" 2 ?w ?job]
    decoded in_payload at_patch patched_a roundtrip_a
  have codec: "(\<exists>m. marshal_a m = Inr ''{retries:5}'' \<and> m ''retries'' = Some (JNumber 5))
      \<and> (\<exists>m. unmarshal_a ''{retries:5}'' = Inr (Some m) \<and> m ''retries'' = Some (JNumber 5))"
    by blast
  from ApplySuggestedFix_overlay [of ?i unmarshal_a marshal_a "''{retries:1}''"
      "[''retries'' \<mapsto> JNumber 1]" "''retries''" "JNumber 5" "''{retries:5}''" 2 ?w ?job]
    up the_insight the_job patched_job
  have "map_option Payload
      (find (\<lambda>r. ID r = JobID ?i) (jobs (snd (ApplyInsightFix unmarshal_a marshal_a 2 ?w))))
      = Some ''{retries:5}''"
    by blast
  then have service: "map_option Payload
      (find (\<lambda>r. ID r = 1) (jobs (snd (ApplyInsightFix unmarshal_a marshal_a 2 ?w))))
      = Some ''{retries:5}''"
    unfolding job_id .
  from unchanged decoded in_payload patched_a codec service show ?thesis
    by blast
qed

end
